theory Spec2Isabelle
  imports Complex_Main
begin

section \<open>Floating-point numbers\<close>

text \<open>
  A JavaScript number and a Python float are IEEE 754 double-precision numbers, and
  their arithmetic rounds. The arithmetic belongs to the language, not to the
  repository: it is a parameter of the model, a record of the operations the code uses
  over an abstract type of numbers \<open>'n\<close>. What is proved for an arbitrary \<open>F\<close> holds
  for every arithmetic; the double-precision arithmetic itself is defined below and is
  the one the definitions are evaluated with on concrete inputs.
  The literals of the code (\<^verbatim>\<open>100\<close>, \<^verbatim>\<open>1.0\<close>, \<^verbatim>\<open>2.0\<close>, \<^verbatim>\<open>-100.0\<close>) are integers, written
  \<open>f_of_int\<close>.
\<close>

record 'n float_ops =
  f_of_int :: "int \<Rightarrow> 'n"
  f_nan :: 'n
    \<comment> \<open>\<^verbatim>\<open>NaN\<close>, the number that \<^verbatim>\<open>undefined\<close> is converted to\<close>
  f_sub :: "'n \<Rightarrow> 'n \<Rightarrow> 'n"
  f_mul :: "'n \<Rightarrow> 'n \<Rightarrow> 'n"
  f_int_div :: "int \<Rightarrow> int \<Rightarrow> 'n"
    \<comment> \<open>Python's \<^verbatim>\<open>a / b\<close> on two integers\<close>
  f_abs :: "'n \<Rightarrow> 'n"
  f_round :: "'n \<Rightarrow> 'n"
    \<comment> \<open>\<^verbatim>\<open>Math.round\<close>\<close>
  f_gt :: "'n \<Rightarrow> 'n \<Rightarrow> bool"
  f_ge :: "'n \<Rightarrow> 'n \<Rightarrow> bool"

text \<open>
  A field of a JSON body that the code uses as a number holds a number, \<^verbatim>\<open>null\<close>, or is
  missing (\<^verbatim>\<open>undefined\<close>). Arithmetic converts \<^verbatim>\<open>null\<close> to 0 and \<^verbatim>\<open>undefined\<close> to
  \<^verbatim>\<open>NaN\<close>.
\<close>

datatype 'n js_value = Number 'n | Null | Undefined

definition to_number :: "'n float_ops \<Rightarrow> 'n js_value \<Rightarrow> 'n" where
  "to_number F v = (case v of Number x \<Rightarrow> x | Null \<Rightarrow> f_of_int F 0 | Undefined \<Rightarrow> f_nan F)"

subsection \<open>Double precision\<close>

text \<open>
  A double is a finite number \<open>m * 2 ^ e\<close> with integers \<open>m\<close> and \<open>e\<close>, an infinity
  (\<open>Infinity True\<close> the positive one) or \<^verbatim>\<open>NaN\<close>. The operations compute the exact result
  on integers and round it once, to the nearest double, a tie to the even mantissa, as
  IEEE 754 prescribes. The zero has no sign here: \<^verbatim>\<open>-0\<close>, which none of the comparisons
  of the code tells from \<^verbatim>\<open>0\<close>, is \<open>Finite 0 0\<close>.

  \<open>bits n\<close> is the length of \<open>n\<close> in binary. \<open>pack neg N s\<close> rounds the number of
  magnitude \<open>N * 2 ^ s\<close>, negative when \<open>neg\<close>, to a double: a mantissa of 53 bits, of
  fewer with the least exponent \<open>-1074\<close> (a subnormal number), and an infinity beyond the
  greatest exponent.
\<close>

datatype double = Finite int int | Infinity bool | NaN

function bits :: "int \<Rightarrow> int" where
  "bits n = (if n \<le> 0 then 0 else 1 + bits (n div 2))"
  by pat_completeness auto
termination
  by (relation "measure nat") auto

declare bits.simps [simp del]

definition round_shift :: "int \<Rightarrow> nat \<Rightarrow> int" where
  "round_shift N sh =
     (if sh = 0 then N
      else (let p = 2 ^ sh; q = N div p; r = N mod p; h = p div 2
            in if r > h \<or> (r = h \<and> odd q) then q + 1 else q))"

definition pack :: "bool \<Rightarrow> int \<Rightarrow> int \<Rightarrow> double" where
  "pack neg N s =
     (if N = 0 then Finite 0 0
      else (let L = bits N;
                e = max (s + L - 53) (- 1074);
                m = (if e \<le> s then N * 2 ^ nat (s - e) else round_shift N (nat (e - s)));
                m' = (if m = 2 ^ 53 then 2 ^ 52 else m);
                e' = (if m = 2 ^ 53 then e + 1 else e)
            in if m' = 0 then Finite 0 0
               else if e' > 971 then Infinity (\<not> neg)
               else Finite (if neg then - m' else m') e'))"

definition round_dyadic :: "int \<Rightarrow> int \<Rightarrow> double" where
  "round_dyadic N s = pack (N < 0) \<bar>N\<bar> s"

definition d_of_int :: "int \<Rightarrow> double" where
  "d_of_int n = round_dyadic n 0"

fun d_sub :: "double \<Rightarrow> double \<Rightarrow> double" where
  "d_sub (Finite m1 e1) (Finite m2 e2) =
     (let e = min e1 e2 in round_dyadic (m1 * 2 ^ nat (e1 - e) - m2 * 2 ^ nat (e2 - e)) e)"
| "d_sub (Finite a b) (Infinity s) = Infinity (\<not> s)"
| "d_sub (Infinity s) (Finite a b) = Infinity s"
| "d_sub (Infinity s) (Infinity t) = (if s = t then NaN else Infinity s)"
| "d_sub x y = NaN"

fun d_mul :: "double \<Rightarrow> double \<Rightarrow> double" where
  "d_mul (Finite m1 e1) (Finite m2 e2) = round_dyadic (m1 * m2) (e1 + e2)"
| "d_mul (Finite a b) (Infinity s) = (if a = 0 then NaN else Infinity (s = (a > 0)))"
| "d_mul (Infinity s) (Finite a b) = (if a = 0 then NaN else Infinity (s = (a > 0)))"
| "d_mul (Infinity s) (Infinity t) = Infinity (s = t)"
| "d_mul x y = NaN"

fun d_gt :: "double \<Rightarrow> double \<Rightarrow> bool" where
  "d_gt (Finite m1 e1) (Finite m2 e2) =
     (let e = min e1 e2 in m1 * 2 ^ nat (e1 - e) > m2 * 2 ^ nat (e2 - e))"
| "d_gt (Finite a b) (Infinity s) = (\<not> s)"
| "d_gt (Infinity s) (Finite a b) = s"
| "d_gt (Infinity s) (Infinity t) = (s \<and> \<not> t)"
| "d_gt x y = False"

fun d_ge :: "double \<Rightarrow> double \<Rightarrow> bool" where
  "d_ge (Finite m1 e1) (Finite m2 e2) =
     (let e = min e1 e2 in m1 * 2 ^ nat (e1 - e) \<ge> m2 * 2 ^ nat (e2 - e))"
| "d_ge (Finite a b) (Infinity s) = (\<not> s)"
| "d_ge (Infinity s) (Finite a b) = s"
| "d_ge (Infinity s) (Infinity t) = (s \<or> \<not> t)"
| "d_ge x y = False"

fun d_abs :: "double \<Rightarrow> double" where
  "d_abs (Finite m e) = Finite \<bar>m\<bar> e"
| "d_abs (Infinity s) = Infinity True"
| "d_abs NaN = NaN"

text \<open>\<^verbatim>\<open>Math.round\<close>: the nearest integer, a half rounded up.\<close>

fun d_round :: "double \<Rightarrow> double" where
  "d_round (Finite m e) =
     (if e \<ge> 0 then Finite m e
      else round_dyadic ((2 * m + 2 ^ nat (- e)) div 2 ^ (nat (- e) + 1)) 0)"
| "d_round x = x"

text \<open>
  The quotient of two integers, rounded once: Python's \<^verbatim>\<open>a / b\<close>, and the number that
  the decimal \<open>a / b\<close> denotes in a JSON text when \<open>b\<close> is a power of ten. The quotient
  is computed to 55 bits or more, with one more bit that tells whether a remainder is
  left. (Python raises at \<open>b = 0\<close>; the scripts divide by 100.)
\<close>

definition d_int_div :: "int \<Rightarrow> int \<Rightarrow> double" where
  "d_int_div a b =
     (if b = 0 then NaN
      else if a = 0 then Finite 0 0
      else (let k = nat (55 + bits \<bar>b\<bar> - bits \<bar>a\<bar>);
                n = \<bar>a\<bar> * 2 ^ k;
                sticky = (if n mod \<bar>b\<bar> = 0 then 0 else 1)
            in pack ((a < 0) \<noteq> (b < 0)) (2 * (n div \<bar>b\<bar>) + sticky) (- int k - 1)))"

definition double_ops :: "double float_ops" where
  "double_ops =
     \<lparr>f_of_int = d_of_int, f_nan = NaN, f_sub = d_sub, f_mul = d_mul, f_int_div = d_int_div,
      f_abs = d_abs, f_round = d_round, f_gt = d_gt, f_ge = d_ge\<rparr>"

section \<open>Remote evaluation call with bounded retries (StockfishApiEngine.analyzePosition)\<close>

text \<open>
  The JSON object the evaluation service answers with (interface StockfishApiAnalysis).
  The interface declares \<^verbatim>\<open>evaluation\<close> a number; the body is not checked against it,
  and the field may be \<^verbatim>\<open>null\<close> or missing.
\<close>

record 'n StockfishApiAnalysis =
  success :: bool
  evaluation :: "'n js_value"
  mate :: "int option"
  bestmove :: string
  continuation :: string

text \<open>
  What one attempt (one \<^verbatim>\<open>fetch\<close> followed by \<^verbatim>\<open>response.json()\<close>) can meet:
  a response whose \<^verbatim>\<open>ok\<close> flag is false (with its status), a parsed JSON body, or an
  exception thrown by \<^verbatim>\<open>fetch\<close> (transport failure, the 15 s abort) or by the
  JSON parser, carrying its message.
\<close>

datatype 'n attempt =
    Response_not_ok nat
  | Json "'n StockfishApiAnalysis"
  | Thrown string

text \<open>The observable actions of a call, in the order they happen.\<close>

datatype event = Fetch nat | Sleep nat

definition maxRetries :: nat where
  "maxRetries = 2"

definition baseDelay :: nat where
  "baseDelay = 600"

definition failed_position :: string where
  "failed_position = ''Failed to analyze position with Stockfish API''"

text \<open>\<^verbatim>\<open>String.prototype.includes\<close>: the needle occurs as a contiguous substring.\<close>

fun starts_with :: "string \<Rightarrow> string \<Rightarrow> bool" where
  "starts_with s [] = True"
| "starts_with [] (c # cs) = False"
| "starts_with (d # ds) (c # cs) = (d = c \<and> starts_with ds cs)"

fun str_includes :: "string \<Rightarrow> string \<Rightarrow> bool" where
  "str_includes [] needle = (needle = [])"
| "str_includes (c # cs) needle = (starts_with (c # cs) needle \<or> str_includes cs needle)"

text \<open>
  \<^verbatim>\<open>analyzePosition(fen, retryCount = 0)\<close>. The network is a function from the attempt
  number to what that attempt meets. The result is the value the promise settles with
  (\<open>Inl\<close>: the message of the error it rejects with) and the trace of fetches and sleeps.
  A retry is \<^verbatim>\<open>return this.analyzePosition(fen, retryCount + 1)\<close> without
  \<^verbatim>\<open>await\<close>, so a rejection of the inner call is not caught by the outer
  \<^verbatim>\<open>try\<close>. The \<^verbatim>\<open>throw\<close> statements inside the \<^verbatim>\<open>try\<close> block are reached
  only when \<^verbatim>\<open>retryCount < maxRetries\<close> is false, so the \<^verbatim>\<open>catch\<close> block rethrows
  for them.
\<close>

function analyzePosition ::
  "(nat \<Rightarrow> 'n attempt) \<Rightarrow> nat \<Rightarrow> (string + 'n StockfishApiAnalysis) \<times> event list" where
  "analyzePosition net retryCount =
     (case net retryCount of
        Response_not_ok status \<Rightarrow>
          (if retryCount < maxRetries then
             (let delay = baseDelay + retryCount * 200;
                  (r, tr) = analyzePosition net (retryCount + 1)
              in (r, Fetch retryCount # Sleep delay # tr))
           else (Inl failed_position, [Fetch retryCount]))
      | Json data \<Rightarrow>
          (if \<not> success data then
             (if retryCount < maxRetries then
                (let delay = baseDelay + retryCount * 200;
                     (r, tr) = analyzePosition net (retryCount + 1)
                 in (r, Fetch retryCount # Sleep delay # tr))
              else (Inl failed_position, [Fetch retryCount]))
           else (Inr data, [Fetch retryCount]))
      | Thrown message \<Rightarrow>
          (if retryCount < maxRetries \<and> \<not> str_includes message ''API request failed:''
              \<and> \<not> str_includes message ''unsuccessful response'' then
             (let delay = baseDelay + retryCount * 200;
                  (r, tr) = analyzePosition net (retryCount + 1)
              in (r, Fetch retryCount # Sleep delay # tr))
           else (Inl failed_position, [Fetch retryCount])))"
  by pat_completeness auto
termination
  by (relation "measure (\<lambda>(net, retryCount). maxRetries - retryCount)") (auto simp: maxRetries_def)

declare analyzePosition.simps [simp del]

text \<open>Reading a trace: the delays slept, and the number of requests sent.\<close>

fun sleeps :: "event list \<Rightarrow> nat list" where
  "sleeps [] = []"
| "sleeps (Fetch n # tr) = sleeps tr"
| "sleeps (Sleep d # tr) = d # sleeps tr"

fun fetch_count :: "event list \<Rightarrow> nat" where
  "fetch_count [] = 0"
| "fetch_count (Fetch n # tr) = Suc (fetch_count tr)"
| "fetch_count (Sleep d # tr) = fetch_count tr"

text \<open>
  An attempt is a retryable failure when the code, given budget, sleeps and calls itself
  again: a response that is not ok, a body whose \<^verbatim>\<open>success\<close> flag is false, or an
  exception whose message holds neither of the two marker texts. \<open>settle\<close> is what an
  attempt that is not retried settles the promise with.
\<close>

fun retryable :: "'n attempt \<Rightarrow> bool" where
  "retryable (Response_not_ok status) = True"
| "retryable (Json data) = (\<not> success data)"
| "retryable (Thrown message) =
     (\<not> str_includes message ''API request failed:'' \<and> \<not> str_includes message ''unsuccessful response'')"

fun settle :: "'n attempt \<Rightarrow> string + 'n StockfishApiAnalysis" where
  "settle (Json data) = (if success data then Inr data else Inl failed_position)"
| "settle a = Inl failed_position"

section \<open>The rules-of-chess capability (the chess.js library)\<close>

text \<open>
  The position evaluator and the game analyzer use the chess.js library for the rules of
  chess. The library is not part of the repository: it is a parameter of the model, a
  record of functions over an abstract type of positions \<open>'p\<close>, one field for each
  method of the \<^verbatim>\<open>Chess\<close> class that the code calls.
\<close>

datatype color = White | Black

datatype piece_type = Pawn | Knight | Bishop | Rook | Queen | King

record piece =
  type :: piece_type
  color :: color

text \<open>
  A verbose move object of chess.js, with the fields the code reads (\<^verbatim>\<open>move.piece\<close>
  is the type of the moved piece, \<^verbatim>\<open>move.to\<close> the name of the target square).
\<close>

record Move =
  san :: string
  flags :: string
  piece :: piece_type
  captured :: "piece_type option"
  to :: string

text \<open>The object returned by \<^verbatim>\<open>getCastlingRights\<close>: its fields \<^verbatim>\<open>k\<close> and \<^verbatim>\<open>q\<close>.\<close>

record castling_rights =
  castle_k :: bool
  castle_q :: bool

text \<open>An exception: one thrown by chess.js, or an \<^verbatim>\<open>Error\<close> with a message.\<close>

datatype exn = Chess_error | Error string

record 'p rules =
  chess_new :: 'p
    \<comment> \<open>\<^verbatim>\<open>new Chess()\<close> and \<^verbatim>\<open>chess.reset()\<close>: the initial position\<close>
  chess_new_fen :: "string \<Rightarrow> 'p option"
    \<comment> \<open>\<^verbatim>\<open>new Chess(fen)\<close>; \<open>None\<close> when it throws\<close>
  chess_loadPgn :: "string \<Rightarrow> string list option"
    \<comment> \<open>\<^verbatim>\<open>chess.loadPgn(pgn)\<close> followed by \<^verbatim>\<open>chess.history()\<close>; \<open>None\<close> when it throws\<close>
  chess_move_san :: "'p \<Rightarrow> string \<Rightarrow> 'p option"
    \<comment> \<open>\<^verbatim>\<open>chess.move(san)\<close> with a string; \<open>None\<close> when it throws\<close>
  chess_move_obj :: "'p \<Rightarrow> Move \<Rightarrow> 'p option"
    \<comment> \<open>\<^verbatim>\<open>chess.move(move)\<close> with a move object; \<open>None\<close> when it throws\<close>
  chess_fen :: "'p \<Rightarrow> string"
  chess_moves :: "'p \<Rightarrow> Move list"
    \<comment> \<open>\<^verbatim>\<open>chess.moves({ verbose: true })\<close>, in the library's enumeration order\<close>
  chess_moves_square :: "'p \<Rightarrow> string \<Rightarrow> Move list"
    \<comment> \<open>\<^verbatim>\<open>chess.moves({ verbose: true, square })\<close>\<close>
  chess_board :: "'p \<Rightarrow> nat \<Rightarrow> nat \<Rightarrow> piece option"
    \<comment> \<open>\<^verbatim>\<open>chess.board()[rank][file]\<close> for \<open>rank, file < 8\<close>\<close>
  chess_get :: "'p \<Rightarrow> string \<Rightarrow> piece option"
  chess_turn :: "'p \<Rightarrow> color"
  chess_inCheck :: "'p \<Rightarrow> bool"
  chess_getCastlingRights :: "'p \<Rightarrow> color \<Rightarrow> castling_rights"
  chess_moveNumber :: "'p \<Rightarrow> nat"

text \<open>
  A \<^verbatim>\<open>Chess\<close> object is mutable: it holds the current position and the positions
  that \<^verbatim>\<open>undo()\<close> goes back to. \<^verbatim>\<open>move\<close> either throws and leaves the object as it
  is, or pushes the current position and replaces it; \<^verbatim>\<open>undo\<close> pops (and does
  nothing on an empty history).
\<close>

record 'p Chess =
  position :: 'p
  history :: "'p list"

definition Chess_move :: "'p rules \<Rightarrow> 'p Chess \<Rightarrow> Move \<Rightarrow> 'p Chess option" where
  "Chess_move R chess move =
     (case chess_move_obj R (position chess) move of
        None \<Rightarrow> None
      | Some p \<Rightarrow> Some \<lparr>position = p, history = position chess # history chess\<rparr>)"

definition Chess_move_san :: "'p rules \<Rightarrow> 'p Chess \<Rightarrow> string \<Rightarrow> 'p Chess option" where
  "Chess_move_san R chess s =
     (case chess_move_san R (position chess) s of
        None \<Rightarrow> None
      | Some p \<Rightarrow> Some \<lparr>position = p, history = position chess # history chess\<rparr>)"

definition Chess_undo :: "'p Chess \<Rightarrow> 'p Chess" where
  "Chess_undo chess =
     (case history chess of
        [] \<Rightarrow> chess
      | p # h \<Rightarrow> \<lparr>position = p, history = h\<rparr>)"

definition Chess_reset :: "'p rules \<Rightarrow> 'p Chess" where
  "Chess_reset R = \<lparr>position = chess_new R, history = []\<rparr>"

section \<open>The position evaluator (RealStockfishEngine)\<close>

definition pieceValues :: "piece_type \<Rightarrow> int" where
  "pieceValues t =
     (case t of Pawn \<Rightarrow> 100 | Knight \<Rightarrow> 320 | Bishop \<Rightarrow> 330 | Rook \<Rightarrow> 500 | Queen \<Rightarrow> 900 | King \<Rightarrow> 0)"

definition getPieceValue :: "piece_type \<Rightarrow> int" where
  "getPieceValue t =
     (case t of Pawn \<Rightarrow> 100 | Knight \<Rightarrow> 320 | Bishop \<Rightarrow> 330 | Rook \<Rightarrow> 500 | Queen \<Rightarrow> 900 | King \<Rightarrow> 0)"

definition getMaterialBalance :: "'p rules \<Rightarrow> 'p Chess \<Rightarrow> int" where
  "getMaterialBalance R chess =
     fold (\<lambda>rank material.
        fold (\<lambda>file material.
          (case chess_board R (position chess) rank file of
             None \<Rightarrow> material
           | Some pc \<Rightarrow>
               material + (if color pc = White then pieceValues (type pc) else - pieceValues (type pc))))
          [0..<8] material)
       [0..<8] 0"

definition evaluatePieceActivity :: "'p rules \<Rightarrow> 'p Chess \<Rightarrow> int" where
  "evaluatePieceActivity R chess =
     (let moves = chess_moves R (position chess);
          activity =
            fold (\<lambda>move activity.
                activity
                + (if str_includes (flags move) ''c'' then 15 else 0)
                + (if str_includes (flags move) ''+'' then 20 else 0)
                + (if piece move = Knight \<or> piece move = Bishop then 5 else 0))
              moves (int (length moves) * 4)
      in if chess_turn R (position chess) = White then activity else - activity)"

definition evaluatePositionalFactors :: "'p rules \<Rightarrow> 'p Chess \<Rightarrow> int" where
  "evaluatePositionalFactors R chess =
     (let centerSquares = [''e4'', ''e5'', ''d4'', ''d5''];
          positional =
            fold (\<lambda>square positional.
                (case chess_get R (position chess) square of
                   None \<Rightarrow> positional
                 | Some pc \<Rightarrow> positional + (if color pc = White then 35 else - 35)))
              centerSquares 0;
          moves = chess_moves R (position chess);
          attackedSquares = remdups (map to moves)
      in positional +
           (if chess_turn R (position chess) = White then int (length attackedSquares) * 2
            else - int (length attackedSquares) * 2))"

definition evaluateTacticalFactors :: "'p rules \<Rightarrow> 'p Chess \<Rightarrow> int" where
  "evaluateTacticalFactors R chess =
     (let moves = chess_moves R (position chess)
      in fold (\<lambda>move tactical.
           (let tactical1 =
                  (if str_includes (flags move) ''c'' then
                     (let capturedPieceValue =
                            getPieceValue (case captured move of None \<Rightarrow> Pawn | Some t \<Rightarrow> t)
                      in tactical +
                           (if chess_turn R (position chess) = White then capturedPieceValue
                            else - capturedPieceValue))
                   else tactical)
            in if str_includes (flags move) ''+'' then
                 tactical1 + (if chess_turn R (position chess) = White then 50 else - 50)
               else tactical1))
         moves 0)"

definition evaluateKingSafety :: "'p rules \<Rightarrow> 'p Chess \<Rightarrow> int" where
  "evaluateKingSafety R chess =
     (let safety = (if chess_inCheck R (position chess)
                    then (if chess_turn R (position chess) = White then - 60 else 60) else 0);
          whiteCastling = chess_getCastlingRights R (position chess) White;
          blackCastling = chess_getCastlingRights R (position chess) Black;
          whiteCastlingCount =
            (if castle_k whiteCastling then 1 else 0) + (if castle_q whiteCastling then 1 else (0::int));
          blackCastlingCount =
            (if castle_k blackCastling then 1 else 0) + (if castle_q blackCastling then 1 else (0::int))
      in safety + whiteCastlingCount * 25 - blackCastlingCount * 25)"

text \<open>
  \<^verbatim>\<open>isIsolatedPawn\<close>: the adjacent files are \<open>file - 1\<close> and \<open>file + 1\<close> as integers,
  kept only when inside \<open>0..7\<close>; the answer is false as soon as one of them holds a pawn
  of the colour.
\<close>

definition isIsolatedPawn :: "'p rules \<Rightarrow> 'p Chess \<Rightarrow> nat \<Rightarrow> color \<Rightarrow> bool" where
  "isIsolatedPawn R chess file col =
     (\<not> list_ex (\<lambda>checkFile.
          0 \<le> checkFile \<and> checkFile < 8 \<and>
          list_ex (\<lambda>rank.
              (case chess_board R (position chess) rank (nat checkFile) of
                 None \<Rightarrow> False
               | Some pc \<Rightarrow> type pc = Pawn \<and> color pc = col))
            [0..<8])
        [int file - 1, int file + 1])"

definition evaluatePawnStructure :: "'p rules \<Rightarrow> 'p Chess \<Rightarrow> int" where
  "evaluatePawnStructure R chess =
     fold (\<lambda>file structure.
        (let (whitePawns, blackPawns) =
               fold (\<lambda>rank (whitePawns, blackPawns).
                   (case chess_board R (position chess) rank file of
                      None \<Rightarrow> (whitePawns, blackPawns)
                    | Some pc \<Rightarrow>
                        if type pc = Pawn then
                          (if color pc = White then (whitePawns + 1, blackPawns)
                           else (whitePawns, blackPawns + 1))
                        else (whitePawns, blackPawns)))
                 [0..<8] (0::int, 0::int);
             s1 = (if whitePawns > 1 then structure - (whitePawns - 1) * 25 else structure);
             s2 = (if blackPawns > 1 then s1 + (blackPawns - 1) * 25 else s1);
             s3 = (if whitePawns = 1 \<and> isIsolatedPawn R chess file White then s2 - 20 else s2);
             s4 = (if blackPawns = 1 \<and> isIsolatedPawn R chess file Black then s3 + 20 else s3)
         in s4))
       [0..<8] 0"

definition calculateStockfishStyleEvaluation :: "'p rules \<Rightarrow> 'p Chess \<Rightarrow> int" where
  "calculateStockfishStyleEvaluation R chess =
     0 + getMaterialBalance R chess
       + evaluatePieceActivity R chess
       + evaluateKingSafety R chess
       + evaluatePawnStructure R chess
       + evaluatePositionalFactors R chess
       + evaluateTacticalFactors R chess"

text \<open>
  The running best score of the search starts at \<^verbatim>\<open>-Infinity\<close>: \<open>None\<close> here, which
  every score exceeds.
\<close>

fun exceeds :: "int \<Rightarrow> int option \<Rightarrow> bool" where
  "exceeds e None = True"
| "exceeds e (Some b) = (e > b)"

text \<open>
  The loop of \<^verbatim>\<open>findBestMoveUsingEvaluation\<close> over the moves still to be tried, with
  the best move and best score so far. It returns the best move, or the exception that
  \<^verbatim>\<open>chess.move\<close> threw, and the \<^verbatim>\<open>Chess\<close> object as the loop leaves it.
\<close>

fun findBest_loop ::
  "'p rules \<Rightarrow> Move list \<Rightarrow> Move \<Rightarrow> int option \<Rightarrow> 'p Chess \<Rightarrow> (exn + Move) \<times> 'p Chess" where
  "findBest_loop R [] bestMove bestEvaluation chess = (Inr bestMove, chess)"
| "findBest_loop R (move # moves) bestMove bestEvaluation chess =
     (case Chess_move R chess move of
        None \<Rightarrow> (Inl Chess_error, chess)
      | Some chess1 \<Rightarrow>
          (let moveEvaluation = - calculateStockfishStyleEvaluation R chess1;
               chess2 = Chess_undo chess1
           in if exceeds moveEvaluation bestEvaluation
              then findBest_loop R moves move (Some moveEvaluation) chess2
              else findBest_loop R moves bestMove bestEvaluation chess2))"

definition findBestMoveUsingEvaluation :: "'p rules \<Rightarrow> 'p Chess \<Rightarrow> (exn + string) \<times> 'p Chess" where
  "findBestMoveUsingEvaluation R chess =
     (let moves = chess_moves R (position chess)
      in if length moves = 0 then (Inr ''none'', chess)
         else (case findBest_loop R moves (hd moves) None chess of
                 (Inl e, chess') \<Rightarrow> (Inl e, chess')
               | (Inr bestMove, chess') \<Rightarrow> (Inr (san bestMove), chess')))"

definition describeMoveType :: "Move \<Rightarrow> string" where
  "describeMoveType move =
     (if str_includes (flags move) ''c'' then ''Capture''
      else if str_includes (flags move) ''+'' then ''Check''
      else if str_includes (flags move) ''k'' \<or> str_includes (flags move) ''q'' then ''Castling''
      else if piece move = Pawn then ''Pawn advance''
      else ''Development'')"

text \<open>An entry of \<^verbatim>\<open>alternativeMoves\<close>: its fields \<^verbatim>\<open>move\<close>, \<^verbatim>\<open>evaluation\<close>, \<^verbatim>\<open>description\<close>.\<close>

record alternative =
  move_alt :: string
  evaluation_alt :: int
  description :: string

fun getTopAlternatives_map ::
  "'p rules \<Rightarrow> Move list \<Rightarrow> 'p Chess \<Rightarrow> (exn + alternative list) \<times> 'p Chess" where
  "getTopAlternatives_map R [] chess = (Inr [], chess)"
| "getTopAlternatives_map R (move # moves) chess =
     (case Chess_move R chess move of
        None \<Rightarrow> (Inl Chess_error, chess)
      | Some chess1 \<Rightarrow>
          (let evaluation = - calculateStockfishStyleEvaluation R chess1;
               chess2 = Chess_undo chess1;
               alt = \<lparr>move_alt = san move, evaluation_alt = evaluation,
                      description = describeMoveType move\<rparr>
           in (case getTopAlternatives_map R moves chess2 of
                 (Inl e, chess3) \<Rightarrow> (Inl e, chess3)
               | (Inr alts, chess3) \<Rightarrow> (Inr (alt # alts), chess3))))"

definition getTopAlternativesWithEvaluation ::
  "'p rules \<Rightarrow> 'p Chess \<Rightarrow> (exn + alternative list) \<times> 'p Chess" where
  "getTopAlternativesWithEvaluation R chess =
     getTopAlternatives_map R (take 3 (chess_moves R (position chess))) chess"

definition createsFork :: "'p rules \<Rightarrow> 'p Chess \<Rightarrow> Move \<Rightarrow> (exn + bool) \<times> 'p Chess" where
  "createsFork R chess move =
     (if piece move \<noteq> Knight then (Inr False, chess)
      else (case Chess_move R chess move of
              None \<Rightarrow> (Inl Chess_error, chess)
            | Some chess1 \<Rightarrow>
                (let knightMoves = chess_moves_square R (position chess1) (to move);
                     chess2 = Chess_undo chess1;
                     attacks = filter (\<lambda>m. str_includes (flags m) ''c'') knightMoves
                 in (Inr (length attacks \<ge> 2), chess2))))"

definition createsPinOrSkewer :: "Move \<Rightarrow> bool" where
  "createsPinOrSkewer move = (piece move = Bishop \<or> piece move = Rook \<or> piece move = Queen)"

fun identifyRealTactics_loop ::
  "'p rules \<Rightarrow> Move list \<Rightarrow> string list \<Rightarrow> 'p Chess \<Rightarrow> (exn + string list) \<times> 'p Chess" where
  "identifyRealTactics_loop R [] tactics chess = (Inr tactics, chess)"
| "identifyRealTactics_loop R (move # moves) tactics chess =
     (let t1 = (if str_includes (flags move) ''c'' then tactics @ [''Capture''] else tactics);
          t2 = (if str_includes (flags move) ''+'' then t1 @ [''Check''] else t1)
      in (case (if piece move = Knight then createsFork R chess move else (Inr False, chess)) of
            (Inl e, chess1) \<Rightarrow> (Inl e, chess1)
          | (Inr fork, chess1) \<Rightarrow>
              (let t3 = (if fork then t2 @ [''Fork''] else t2);
                   t4 = (if createsPinOrSkewer move then t3 @ [''Pin''] else t3)
               in identifyRealTactics_loop R moves t4 chess1)))"

definition identifyRealTactics :: "'p rules \<Rightarrow> 'p Chess \<Rightarrow> (exn + string list) \<times> 'p Chess" where
  "identifyRealTactics R chess =
     (case identifyRealTactics_loop R (chess_moves R (position chess)) [] chess of
        (Inl e, chess1) \<Rightarrow> (Inl e, chess1)
      | (Inr tactics, chess1) \<Rightarrow>
          (Inr (fold (\<lambda>tactic uniqueTactics.
                  if tactic \<in> set uniqueTactics then uniqueTactics else uniqueTactics @ [tactic])
                tactics []), chess1))"

definition classifyGamePhase :: "'p rules \<Rightarrow> 'p Chess \<Rightarrow> string" where
  "classifyGamePhase R chess =
     (let moveNumber = chess_moveNumber R (position chess)
      in if moveNumber \<le> 10 then ''Opening''
         else if moveNumber \<ge> 30 then ''Endgame''
         else ''Middlegame'')"

text \<open>
  The results of \<^verbatim>\<open>RealStockfishEngine.analyzePosition\<close> (interfaces RealEngineAnalysis, whose
  optional \<^verbatim>\<open>mate\<close> is never set, and RealPositionAnalysis). The fields \<^verbatim>\<open>evaluation\<close>
  and \<^verbatim>\<open>bestMove\<close> carry a suffix here, as other records have fields of these names.
\<close>

record RealEngineAnalysis =
  evaluation_re :: int
  bestMove_re :: string
  principalVariation :: "string list"
  depth :: nat
  nodes :: int
  time :: int

record RealPositionAnalysis =
  currentEvaluation :: RealEngineAnalysis
  alternativeMoves :: "alternative list"
  tacticalThemes :: "string list"
  positionType :: string

definition analysisDepth :: nat where
  "analysisDepth = 15"

text \<open>
  \<^verbatim>\<open>RealStockfishEngine.analyzePosition(fen)\<close>. The two calls of \<^verbatim>\<open>Math.random()\<close> are
  the values \<open>random 0\<close> and \<open>random 1\<close> of a stream of numbers in \<open>[0, 1)\<close>. An exception
  thrown inside is rethrown by the \<^verbatim>\<open>catch\<close> block. The evaluation is an integer, which
  \<^verbatim>\<open>Math.round\<close> leaves as it is.
\<close>

definition RealStockfishEngine_analyzePosition ::
  "'p rules \<Rightarrow> (nat \<Rightarrow> rat) \<Rightarrow> string \<Rightarrow> exn + RealPositionAnalysis" where
  "RealStockfishEngine_analyzePosition R random fen =
     (case chess_new_fen R fen of
        None \<Rightarrow> Inl Chess_error
      | Some p \<Rightarrow>
          (let chess = \<lparr>position = p, history = []\<rparr>;
               evaluation = calculateStockfishStyleEvaluation R chess
           in (case findBestMoveUsingEvaluation R chess of
                 (Inl e, chess1) \<Rightarrow> Inl e
               | (Inr bestMove, chess1) \<Rightarrow>
                   (case getTopAlternativesWithEvaluation R chess1 of
                      (Inl e, chess2) \<Rightarrow> Inl e
                    | (Inr alternatives, chess2) \<Rightarrow>
                        (let current =
                               \<lparr>evaluation_re = evaluation, bestMove_re = bestMove,
                                principalVariation = [bestMove], depth = analysisDepth,
                                nodes = 150000 + \<lfloor>random 0 * 100000\<rfloor>,
                                time = 1000 + \<lfloor>random 1 * 800\<rfloor>\<rparr>
                         in (case identifyRealTactics R chess2 of
                               (Inl e, chess3) \<Rightarrow> Inl e
                             | (Inr themes, chess3) \<Rightarrow>
                                 Inr \<lparr>currentEvaluation = current, alternativeMoves = alternatives,
                                      tacticalThemes = themes,
                                      positionType = classifyGamePhase R chess3\<rparr>))))))"

section \<open>JavaScript strings and regular expressions\<close>

text \<open>
  A string is a list of characters with codes below 256. White space (\<^verbatim>\<open>\s\<close> and
  \<^verbatim>\<open>trim\<close>) is space, tab, line feed, vertical tab, form feed, carriage return and the
  no-break space; a word character (\<^verbatim>\<open>\w\<close>) is a letter, a digit or the underscore.
\<close>

definition is_space :: "char \<Rightarrow> bool" where
  "is_space c = (c \<in> set [CHR '' '', CHR 0x09, CHR 0x0A, CHR 0x0B, CHR 0x0C, CHR 0x0D, CHR 0xA0])"

definition is_digit :: "char \<Rightarrow> bool" where
  "is_digit c = (c \<in> set ''0123456789'')"

definition is_word :: "char \<Rightarrow> bool" where
  "is_word c =
     (c \<in> set ''abcdefghijklmnopqrstuvwxyzABCDEFGHIJKLMNOPQRSTUVWXYZ0123456789_'')"

definition trim :: "string \<Rightarrow> string" where
  "trim s = rev (dropWhile is_space (rev (dropWhile is_space s)))"

text \<open>\<^verbatim>\<open>s.split(c)\<close> for a one-character separator: the empty string gives one empty piece.\<close>

fun split :: "char \<Rightarrow> string \<Rightarrow> string list" where
  "split sep [] = [[]]"
| "split sep (c # cs) =
     (if c = sep then [] # split sep cs
      else (case split sep cs of
              [] \<Rightarrow> [[c]]
            | s # ss \<Rightarrow> (c # s) # ss))"

fun join :: "string \<Rightarrow> string list \<Rightarrow> string" where
  "join sep [] = []"
| "join sep [s] = s"
| "join sep (s # t # ss) = s @ sep @ join sep (t # ss)"

text \<open>\<^verbatim>\<open>s.lastIndexOf(c)\<close>: the last index of the character, or \<open>-1\<close>.\<close>

fun lastIndexOf_from :: "char \<Rightarrow> string \<Rightarrow> int \<Rightarrow> int \<Rightarrow> int" where
  "lastIndexOf_from c [] i found = found"
| "lastIndexOf_from c (d # ds) i found = lastIndexOf_from c ds (i + 1) (if d = c then i else found)"

definition lastIndexOf :: "string \<Rightarrow> char \<Rightarrow> int" where
  "lastIndexOf s c = lastIndexOf_from c s 0 (- 1)"

definition padEnd :: "string \<Rightarrow> nat \<Rightarrow> string" where
  "padEnd s n = s @ replicate (n - length s) CHR '' ''"

text \<open>
  The regular expressions the code uses are built from character classes, sequence,
  alternation, the greedy \<^verbatim>\<open>?\<close> and \<^verbatim>\<open>+\<close>, \<^verbatim>\<open>\b\<close>, \<^verbatim>\<open>^\<close> and \<^verbatim>\<open>$\<close> (without the
  multiline flag). A matcher state is the text in front of the current index, reversed, and
  the text from it on. \<open>ends r st\<close> lists the states in which a match of \<open>r\<close> started at
  \<open>st\<close> can end, in the order in which the backtracking matcher of JavaScript tries
  them: the first alternative ahead of the second, the longer repetition ahead of the
  shorter one. A match of the whole expression at \<open>st\<close> ends at the head of that list.
  A repetition makes at most as many rounds as there are characters left: every
  repeated expression of the code is a character class, which consumes one.
\<close>

datatype regex =
    Chars "char list"
  | Not_chars "char list"
  | Space
  | Digit
  | Seq regex regex
  | Alt regex regex
  | Opt regex
  | Plus regex
  | Word_boundary
  | Bol
  | Eol

type_synonym mstate = "string \<times> string"

fun plus_iter :: "(mstate \<Rightarrow> mstate list) \<Rightarrow> nat \<Rightarrow> mstate \<Rightarrow> mstate list" where
  "plus_iter f 0 st = []"
| "plus_iter f (Suc n) st = concat (map (\<lambda>st'. plus_iter f n st' @ [st']) (f st))"

definition word_at :: "string \<Rightarrow> bool" where
  "word_at s = (case s of [] \<Rightarrow> False | c # cs \<Rightarrow> is_word c)"

fun step_if :: "(char \<Rightarrow> bool) \<Rightarrow> mstate \<Rightarrow> mstate list" where
  "step_if P (pre, []) = []"
| "step_if P (pre, c # rest) = (if P c then [(c # pre, rest)] else [])"

fun ends :: "regex \<Rightarrow> mstate \<Rightarrow> mstate list" where
  "ends (Chars cs) st = step_if (\<lambda>c. c \<in> set cs) st"
| "ends (Not_chars cs) st = step_if (\<lambda>c. c \<notin> set cs) st"
| "ends Space st = step_if is_space st"
| "ends Digit st = step_if is_digit st"
| "ends (Seq x y) st = concat (map (ends y) (ends x st))"
| "ends (Alt x y) st = ends x st @ ends y st"
| "ends (Opt x) st = ends x st @ [st]"
| "ends (Plus x) st = plus_iter (ends x) (length (snd st)) st"
| "ends Word_boundary st = (if word_at (fst st) \<noteq> word_at (snd st) then [st] else [])"
| "ends Bol st = (if fst st = [] then [st] else [])"
| "ends Eol st = (if snd st = [] then [st] else [])"

text \<open>A literal text as an expression: its characters in sequence (the text is not empty).\<close>

fun lit :: "string \<Rightarrow> regex" where
  "lit [] = Opt (Chars [])"
| "lit [c] = Chars [c]"
| "lit (c # d # cs) = Seq (Chars [c]) (lit (d # cs))"

text \<open>
  The search for the leftmost match from a state on: the state where it starts and the
  state where it ends.
\<close>

fun search :: "regex \<Rightarrow> string \<Rightarrow> string \<Rightarrow> (mstate \<times> mstate) option" where
  "search r pre [] =
     (case ends r (pre, []) of [] \<Rightarrow> None | e # es \<Rightarrow> Some ((pre, []), e))"
| "search r pre (c # rest) =
     (case ends r (pre, c # rest) of
        [] \<Rightarrow> search r (c # pre) rest
      | e # es \<Rightarrow> Some ((pre, c # rest), e))"

text \<open>The text matched between a start state and an end state.\<close>

definition matched :: "mstate \<Rightarrow> mstate \<Rightarrow> string" where
  "matched st e = rev (take (length (fst e) - length (fst st)) (fst e))"

text \<open>\<^verbatim>\<open>re.test(s)\<close>, and \<^verbatim>\<open>s.match(re)\<close> read as a truth value, without the global flag.\<close>

definition test :: "regex \<Rightarrow> string \<Rightarrow> bool" where
  "test r s = (search r [] s \<noteq> None)"

text \<open>\<^verbatim>\<open>s.replace(re, '')\<close> without the global flag: the leftmost match is removed.\<close>

definition replace_empty :: "regex \<Rightarrow> string \<Rightarrow> string" where
  "replace_empty r s =
     (case search r [] s of
        None \<Rightarrow> s
      | Some (st, e) \<Rightarrow> rev (fst st) @ snd e)"

text \<open>
  \<^verbatim>\<open>s.match(re)\<close> with the global flag: all matches from left to right, each search
  starting where the last match ended (one character further after an empty match).
\<close>

function match_all :: "regex \<Rightarrow> string \<Rightarrow> string \<Rightarrow> string list" where
  "match_all r pre [] =
     (case ends r (pre, []) of [] \<Rightarrow> [] | e # es \<Rightarrow> [matched (pre, []) e])"
| "match_all r pre (c # rest) =
     (case ends r (pre, c # rest) of
        [] \<Rightarrow> match_all r (c # pre) rest
      | e # es \<Rightarrow>
          matched (pre, c # rest) e #
            (if length (snd e) < length (c # rest) then match_all r (fst e) (snd e)
             else match_all r (c # pre) rest))"
  by pat_completeness auto
termination
  by (relation "measure (\<lambda>(r, pre, rest). length rest)") auto

section \<open>The game analyzer (StockfishApiEngine.analyzeCompleteGame)\<close>

subsection \<open>Manual move extraction, the fallback when chess.js cannot parse the PGN\<close>

text \<open>The expression \<^verbatim>\<open>/\s+(1-0|0-1|1\/2-1\/2|\*)$/\<close>.\<close>

definition resultPattern :: regex where
  "resultPattern =
     Seq (Plus Space)
       (Seq (Alt (lit ''1-0'') (Alt (lit ''0-1'') (Alt (lit ''1/2-1/2'') (lit ''*'')))) Eol)"

text \<open>
  The expression \<^verbatim>\<open>movePattern\<close>:
  \<^verbatim>\<open>/\b(?:(?:[NBRQK]?[a-h]?[1-8]?x?[a-h][1-8](?:=[NBRQK])?[+#]?)|(?:O-O(?:-O)?)|(?:[a-h][1-8](?:=[NBRQK])?[+#]?))\b/g\<close>.
\<close>

definition movePattern :: regex where
  "movePattern =
     Seq Word_boundary
       (Seq (Alt (Seq (Opt (Chars ''NBRQK''))
                   (Seq (Opt (Chars ''abcdefgh''))
                     (Seq (Opt (Chars ''12345678''))
                       (Seq (Opt (Chars ''x''))
                         (Seq (Chars ''abcdefgh'')
                           (Seq (Chars ''12345678'')
                             (Seq (Opt (Seq (Chars ''='') (Chars ''NBRQK'')))
                                  (Opt (Chars ''+#'')))))))))
              (Alt (Seq (lit ''O-O'') (Opt (lit ''-O'')))
                   (Seq (Chars ''abcdefgh'')
                     (Seq (Chars ''12345678'')
                       (Seq (Opt (Seq (Chars ''='') (Chars ''NBRQK'')))
                            (Opt (Chars ''+#'')))))))
          Word_boundary)"

text \<open>The expression \<^verbatim>\<open>/^\d+\.?$/\<close>.\<close>

definition moveNumberPattern :: regex where
  "moveNumberPattern = Seq Bol (Seq (Plus Digit) (Seq (Opt (Chars ''.'')) Eol))"

text \<open>
  The loop over the lines of the PGN: what a line contributes to \<^verbatim>\<open>moveLines\<close> (nothing,
  or one cleaned text).
\<close>

definition moveLine :: "string \<Rightarrow> string list" where
  "moveLine line =
     (let trimmedLine = trim line
      in if starts_with trimmedLine ''['' then
           (let closingBracket = lastIndexOf trimmedLine CHR '']''
            in if closingBracket \<noteq> - 1 \<and> closingBracket < int (length trimmedLine) - 1 then
                 (let afterHeader =
                        replace_empty resultPattern (trim (drop (nat (closingBracket + 1)) trimmedLine))
                  in if afterHeader \<noteq> [] then [afterHeader] else [])
               else [])
         else if trimmedLine \<noteq> [] then
           (let cleanedLine = replace_empty resultPattern trimmedLine
            in if cleanedLine \<noteq> [] then [cleanedLine] else [])
         else [])"

text \<open>The candidates: the matches of \<^verbatim>\<open>movePattern\<close> in the joined lines, filtered.\<close>

definition extractedMoves :: "string \<Rightarrow> string list" where
  "extractedMoves pgn =
     (let lines = split CHR 0x0A pgn;
          moveLines = concat (map moveLine lines);
          movesText = join '' '' moveLines;
          moveMatches = match_all movePattern [] movesText
      in filter (\<lambda>m. \<not> test moveNumberPattern m \<and> \<not> str_includes m ''1-0''
                      \<and> \<not> str_includes m ''0-1'' \<and> \<not> str_includes m ''1/2-1/2''
                      \<and> \<not> str_includes m ''*'')
           moveMatches)"

text \<open>
  The validation loop: the candidates are played one after the other; the first one
  that \<^verbatim>\<open>chess.move\<close> rejects ends the loop (\<^verbatim>\<open>break\<close>).
\<close>

fun validate_moves :: "'p rules \<Rightarrow> 'p Chess \<Rightarrow> string list \<Rightarrow> string list" where
  "validate_moves R chess [] = []"
| "validate_moves R chess (m # ms) =
     (case Chess_move_san R chess m of
        None \<Rightarrow> []
      | Some chess1 \<Rightarrow> m # validate_moves R chess1 ms)"

definition extractMovesManually :: "'p rules \<Rightarrow> string \<Rightarrow> string list" where
  "extractMovesManually R pgn = validate_moves R (Chess_reset R) (extractedMoves pgn)"

text \<open>The moves to analyze: the history that chess.js parsed, or the fallback's moves.\<close>

definition gameMoves :: "'p rules \<Rightarrow> string \<Rightarrow> string list" where
  "gameMoves R pgn =
     (case chess_loadPgn R pgn of
        Some h \<Rightarrow> h
      | None \<Rightarrow> extractMovesManually R pgn)"

text \<open>
  The name of the game: the first group of \<^verbatim>\<open>/\[Event\s+"([^"]+)"\]/\<close> at the leftmost
  match, or \<^verbatim>\<open>'Chess Game'\<close>.
\<close>

definition eventPrefix :: regex where
  "eventPrefix = Seq (lit ''[Event'') (Seq (Plus Space) (Chars [CHR 0x22]))"

definition eventGroup :: regex where
  "eventGroup = Plus (Not_chars [CHR 0x22])"

definition eventSuffix :: regex where
  "eventSuffix = Seq (Chars [CHR 0x22]) (Chars '']'')"

definition eventPattern :: regex where
  "eventPattern = Seq eventPrefix (Seq eventGroup eventSuffix)"

definition gameName :: "string \<Rightarrow> string" where
  "gameName pgn =
     (case search eventPattern [] pgn of
        None \<Rightarrow> ''Chess Game''
      | Some (st, e) \<Rightarrow>
          (case concat (map (\<lambda>a. concat (map (\<lambda>b. map (\<lambda>c. matched a b) (ends eventSuffix b))
                                            (ends eventGroup a)))
                         (ends eventPrefix st)) of
             [] \<Rightarrow> ''Chess Game''
           | g # gs \<Rightarrow> g))"

subsection \<open>The analysis loop and the report\<close>

text \<open>
  An entry of \<^verbatim>\<open>moveEvaluations\<close>. Its fields \<^verbatim>\<open>move\<close>, \<^verbatim>\<open>evaluation\<close> and \<^verbatim>\<open>mate\<close>
  carry a suffix here, as other records have fields of these names.
\<close>

record 'n MoveEvaluation =
  moveNumber :: nat
  move_me :: string
  evaluation_me :: 'n
  evaluationFloat :: "'n js_value"
  mate_me :: "int option"
  bestMove :: string

text \<open>
  The lines of \<^verbatim>\<open>rawOutput\<close>, by their content: the header with the name of the game, a
  line \<^verbatim>\<open>Move n: move | Eval: text\<close> with the ply number \<open>n\<close>, the empty line, and one of
  the two summaries. The text of an evaluation is a mate distance (\<^verbatim>\<open>#+3\<close>) or the
  number with two decimals.
\<close>

datatype 'n eval_text = Mate_text int | Number_text 'n

datatype 'n output_line =
    Game_line string
  | Move_line nat string "'n eval_text"
  | Empty_line
  | Major_drops_detected
  | No_major_drops_detected

record 'n GameAnalysisResult =
  gameId :: string
  pgn :: string
  moveEvaluations :: "'n MoveEvaluation list"
  rawOutput :: "'n output_line list"
  totalMoves :: nat

definition failed_game :: string where
  "failed_game = ''Failed to analyze game with Stockfish API''"

text \<open>
  The body of the loop for ply \<open>i\<close> once the move is made and the position analyzed.
  A successful analysis first appends the record, with
  \<^verbatim>\<open>Math.round(analysis.evaluation * 100)\<close> in double arithmetic; then it formats the
  line. Without a mate the line needs \<^verbatim>\<open>evaluationFloat.toFixed(2)\<close>, which throws when
  the evaluation is \<^verbatim>\<open>null\<close> or missing: the exception is caught with the failures of
  the analysis, the record stays and no line is appended (\<open>None\<close>).
\<close>

definition moveEvaluation ::
  "'n float_ops \<Rightarrow> nat \<Rightarrow> string \<Rightarrow> 'n StockfishApiAnalysis \<Rightarrow> 'n MoveEvaluation" where
  "moveEvaluation F i m analysis =
     \<lparr>moveNumber = i div 2 + 1,
      move_me = padEnd m 7 @ ''|'',
      evaluation_me = f_round F (f_mul F (to_number F (evaluation analysis)) (f_of_int F 100)),
      evaluationFloat = evaluation analysis,
      mate_me = (case mate analysis of None \<Rightarrow> None | Some n \<Rightarrow> if n = 0 then None else Some n),
      bestMove = bestmove analysis\<rparr>"

definition number_line :: "nat \<Rightarrow> string \<Rightarrow> 'n js_value \<Rightarrow> 'n output_line option" where
  "number_line i m v =
     (case v of
        Number x \<Rightarrow> Some (Move_line (i + 1) (padEnd m 7) (Number_text x))
      | Null \<Rightarrow> None
      | Undefined \<Rightarrow> None)"

definition moveLineOut :: "nat \<Rightarrow> string \<Rightarrow> 'n StockfishApiAnalysis \<Rightarrow> 'n output_line option" where
  "moveLineOut i m analysis =
     (case mate analysis of
        None \<Rightarrow> number_line i m (evaluation analysis)
      | Some n \<Rightarrow>
          if n = 0 then number_line i m (evaluation analysis)
          else Some (Move_line (i + 1) (padEnd m 7) (Mate_text n)))"

text \<open>
  The loop over the plies. The network is asked once per ply: \<open>net i fen\<close> is what the
  attempts of the call for ply \<open>i\<close>, on the position \<open>fen\<close>, meet. A move that chess.js
  rejects throws out of the loop; a failed analysis is caught and the loop goes on. The
  pause of 500 ms in front of every call but the first leaves no mark on the result and
  is left out, as are the log messages.
\<close>

fun analyze_loop ::
  "'n float_ops \<Rightarrow> 'p rules \<Rightarrow> (nat \<Rightarrow> string \<Rightarrow> nat \<Rightarrow> 'n attempt) \<Rightarrow> nat \<Rightarrow> string list \<Rightarrow>
   'p Chess \<Rightarrow> 'n MoveEvaluation list \<Rightarrow> 'n output_line list \<Rightarrow>
   exn + 'n MoveEvaluation list \<times> 'n output_line list" where
  "analyze_loop F R net i [] chess evals lines = Inr (evals, lines)"
| "analyze_loop F R net i (m # ms) chess evals lines =
     (case Chess_move_san R chess m of
        None \<Rightarrow> Inl Chess_error
      | Some chess1 \<Rightarrow>
          (let currentFen = chess_fen R (position chess1)
           in (case fst (analyzePosition (net i currentFen) 0) of
                 Inl e \<Rightarrow> analyze_loop F R net (i + 1) ms chess1 evals lines
               | Inr analysis \<Rightarrow>
                   if success analysis then
                     analyze_loop F R net (i + 1) ms chess1
                       (evals @ [moveEvaluation F i m analysis])
                       (case moveLineOut i m analysis of
                          None \<Rightarrow> lines
                        | Some l \<Rightarrow> lines @ [l])
                   else analyze_loop F R net (i + 1) ms chess1 evals lines)))"

text \<open>
  The scan for a major evaluation drop between two consecutive records:
  \<^verbatim>\<open>Math.abs(curr.evaluationFloat - prev.evaluationFloat) > 1.0\<close> in double arithmetic.
\<close>

fun hasBlunders :: "'n float_ops \<Rightarrow> 'n MoveEvaluation list \<Rightarrow> bool" where
  "hasBlunders F (prev_rec # curr_rec # rest) =
     (if f_gt F (f_abs F (f_sub F (to_number F (evaluationFloat curr_rec))
                                  (to_number F (evaluationFloat prev_rec))))
               (f_of_int F 1)
      then True
      else hasBlunders F (curr_rec # rest))"
| "hasBlunders F rest = False"

definition analyzeCompleteGame ::
  "'n float_ops \<Rightarrow> 'p rules \<Rightarrow> (nat \<Rightarrow> string \<Rightarrow> nat \<Rightarrow> 'n attempt) \<Rightarrow> string \<Rightarrow> string \<Rightarrow>
   exn + 'n GameAnalysisResult" where
  "analyzeCompleteGame F R net pgn_text game_id =
     (let moves = gameMoves R pgn_text;
          maxMoves = min (length moves) 30
      in (case analyze_loop F R net 0 (take maxMoves moves) (Chess_reset R) []
                 [Game_line (gameName pgn_text)] of
            Inl e \<Rightarrow> Inl (Error failed_game)
          | Inr (evals, lines) \<Rightarrow>
              Inr \<lparr>gameId = game_id, pgn = pgn_text, moveEvaluations = evals,
                   rawOutput = lines @ [Empty_line,
                     if hasBlunders F evals then Major_drops_detected else No_major_drops_detected],
                   totalMoves = length moves\<rparr>))"

section \<open>The earlier revision of the game analyzer (second copy of the file)\<close>

text \<open>
  The source holds a second, earlier copy of \<^verbatim>\<open>StockfishApiEngine\<close>. Its
  \<^verbatim>\<open>analyzePosition\<close> makes one attempt and returns the parsed body whatever its
  \<^verbatim>\<open>success\<close> flag; its \<^verbatim>\<open>analyzeCompleteGame\<close> has no fallback (a PGN that chess.js
  cannot parse makes it throw) and no limit of 30 plies. The names carry the suffix
  \<open>_rev1\<close> here.
\<close>

definition analyzePosition_rev1 :: "'n attempt \<Rightarrow> string + 'n StockfishApiAnalysis" where
  "analyzePosition_rev1 a =
     (case a of
        Response_not_ok status \<Rightarrow> Inl failed_position
      | Json data \<Rightarrow> Inr data
      | Thrown message \<Rightarrow> Inl failed_position)"

fun analyze_loop_rev1 ::
  "'n float_ops \<Rightarrow> 'p rules \<Rightarrow> (nat \<Rightarrow> string \<Rightarrow> 'n attempt) \<Rightarrow> nat \<Rightarrow> string list \<Rightarrow> 'p Chess \<Rightarrow>
   'n MoveEvaluation list \<Rightarrow> 'n output_line list \<Rightarrow>
   exn + 'n MoveEvaluation list \<times> 'n output_line list" where
  "analyze_loop_rev1 F R net i [] chess evals lines = Inr (evals, lines)"
| "analyze_loop_rev1 F R net i (m # ms) chess evals lines =
     (case Chess_move_san R chess m of
        None \<Rightarrow> Inl Chess_error
      | Some chess1 \<Rightarrow>
          (let currentFen = chess_fen R (position chess1)
           in (case analyzePosition_rev1 (net i currentFen) of
                 Inl e \<Rightarrow> analyze_loop_rev1 F R net (i + 1) ms chess1 evals lines
               | Inr analysis \<Rightarrow>
                   if success analysis then
                     analyze_loop_rev1 F R net (i + 1) ms chess1
                       (evals @ [moveEvaluation F i m analysis])
                       (case moveLineOut i m analysis of
                          None \<Rightarrow> lines
                        | Some l \<Rightarrow> lines @ [l])
                   else analyze_loop_rev1 F R net (i + 1) ms chess1 evals lines)))"

definition analyzeCompleteGame_rev1 ::
  "'n float_ops \<Rightarrow> 'p rules \<Rightarrow> (nat \<Rightarrow> string \<Rightarrow> 'n attempt) \<Rightarrow> string \<Rightarrow> string \<Rightarrow>
   exn + 'n GameAnalysisResult" where
  "analyzeCompleteGame_rev1 F R net pgn_text game_id =
     (case chess_loadPgn R pgn_text of
        None \<Rightarrow> Inl (Error failed_game)
      | Some moves \<Rightarrow>
          (case analyze_loop_rev1 F R net 0 moves (Chess_reset R) [] [Game_line (gameName pgn_text)] of
             Inl e \<Rightarrow> Inl (Error failed_game)
           | Inr (evals, lines) \<Rightarrow>
               Inr \<lparr>gameId = game_id, pgn = pgn_text, moveEvaluations = evals,
                    rawOutput = lines @ [Empty_line,
                      if hasBlunders F evals then Major_drops_detected else No_major_drops_detected],
                    totalMoves = length moves\<rparr>))"

section \<open>The Python analyzers (analyze_game)\<close>

text \<open>
  The two scripts analyze a game with a local engine through the python-chess library.
  The library and the engine are parameters: a board type \<open>'b\<close> with the methods the
  scripts call, and the engine as a function of the number of the call and the board.
  A relative score of the library is a centipawn value or a mate distance. The game read
  from the file is the list of its main-line moves. A script prints one line per move
  and, at the end, the entries of \<^verbatim>\<open>big_drops\<close> or, when there is none, that no major
  drop was detected; the model returns \<^verbatim>\<open>big_drops\<close>, which determines the summary.
\<close>

datatype score = Cp int | Mate int

record 'm info =
  info_score :: score
  info_pv :: "'m list option"

record ('b, 'm) py_board =
  board_push :: "'b \<Rightarrow> 'm \<Rightarrow> 'b"
  board_san :: "'b \<Rightarrow> 'm \<Rightarrow> string option"
    \<comment> \<open>\<open>None\<close> when \<^verbatim>\<open>board.san(move)\<close> raises\<close>
  board_is_legal :: "'b \<Rightarrow> 'm \<Rightarrow> bool"
  board_fullmove_number :: "'b \<Rightarrow> nat"
  move_str :: "'m \<Rightarrow> string"

datatype py_error = IndexError

text \<open>
  \<^verbatim>\<open>info.get("pv", [None])[0]\<close>: \<^verbatim>\<open>None\<close> without a principal variation, its first move
  otherwise; indexing an empty variation raises.
\<close>

definition best_move_of :: "'m info \<Rightarrow> py_error + 'm option" where
  "best_move_of i =
     (case info_pv i of
        None \<Rightarrow> Inr None
      | Some [] \<Rightarrow> Inl IndexError
      | Some (m # ms) \<Rightarrow> Inr (Some m))"

text \<open>
  The first script turns a score into pawns, a Python float: a mate is \<open>100.0\<close> when its
  distance is positive and \<open>-100.0\<close> otherwise, a centipawn value is divided by 100 in
  floating point. The difference of two scores and its comparison with \<open>2.0\<close> are
  floating-point operations as well.
\<close>

definition score_pawns :: "'n float_ops \<Rightarrow> score \<Rightarrow> 'n" where
  "score_pawns F s =
     (case s of
        Mate n \<Rightarrow> if n > 0 then f_of_int F 100 else f_of_int F (- 100)
      | Cp c \<Rightarrow> f_int_div F c 100)"

text \<open>An entry of \<^verbatim>\<open>big_drops\<close>: move number, move played, best move, score before and after.\<close>

type_synonym 'n big_drop = "nat \<times> string \<times> string \<times> 'n \<times> 'n"

fun analyze_game_loop ::
  "'n float_ops \<Rightarrow> ('b, 'm) py_board \<Rightarrow> (nat \<Rightarrow> 'b \<Rightarrow> 'm info) \<Rightarrow> nat \<Rightarrow> 'b \<Rightarrow> 'm list \<Rightarrow>
   'n big_drop list \<Rightarrow> py_error + 'n big_drop list" where
  "analyze_game_loop F B engine n board [] big_drops = Inr big_drops"
| "analyze_game_loop F B engine n board (played_move # rest) big_drops =
     (let info_before = engine n board
      in (case best_move_of info_before of
            Inl e \<Rightarrow> Inl e
          | Inr best_move \<Rightarrow>
              (let score_before = score_pawns F (info_score info_before);
                   san_played = (case board_san B board played_move of
                                   Some s \<Rightarrow> s
                                 | None \<Rightarrow> move_str B played_move);
                   san_best = (case best_move of
                                 None \<Rightarrow> ''N/A''
                               | Some bm \<Rightarrow>
                                   if board_is_legal B board bm
                                   then (case board_san B board bm of Some s \<Rightarrow> s | None \<Rightarrow> ''N/A'')
                                   else ''N/A'');
                   board1 = board_push B board played_move;
                   info_after = engine (n + 1) board1;
                   score_after = score_pawns F (info_score info_after);
                   move_number = board_fullmove_number B board1;
                   delta = f_abs F (f_sub F score_before score_after)
               in analyze_game_loop F B engine (n + 2) board1 rest
                    (if f_ge F delta (f_of_int F 2) \<and> Some played_move \<noteq> best_move
                     then big_drops @ [(move_number, san_played, san_best, score_before, score_after)]
                     else big_drops))))"

definition analyze_game ::
  "'n float_ops \<Rightarrow> ('b, 'm) py_board \<Rightarrow> (nat \<Rightarrow> 'b \<Rightarrow> 'm info) \<Rightarrow> 'b \<Rightarrow> 'm list \<Rightarrow>
   py_error + 'n big_drop list" where
  "analyze_game F B engine board moves = analyze_game_loop F B engine 0 board moves []"

text \<open>
  The second script compares centipawns: \<^verbatim>\<open>score(mate_score=10000)\<close> of the library is
  the parameter \<open>score_cp\<close> (\<open>None\<close> for Python's \<^verbatim>\<open>None\<close>), and an entry holds the moves
  themselves.
\<close>

type_synonym 'm big_drop2 = "nat \<times> 'm \<times> 'm option \<times> int \<times> int"

fun analyze_game2_loop ::
  "('b, 'm) py_board \<Rightarrow> (score \<Rightarrow> int option) \<Rightarrow> (nat \<Rightarrow> 'b \<Rightarrow> 'm info) \<Rightarrow> nat \<Rightarrow> 'b \<Rightarrow> 'm list \<Rightarrow>
   'm big_drop2 list \<Rightarrow> py_error + 'm big_drop2 list" where
  "analyze_game2_loop B score_cp engine n board [] big_drops = Inr big_drops"
| "analyze_game2_loop B score_cp engine n board (played_move # rest) big_drops =
     (let info_before = engine n board;
          score_before = score_cp (info_score info_before)
      in (case best_move_of info_before of
            Inl e \<Rightarrow> Inl e
          | Inr best_move \<Rightarrow>
              (let board1 = board_push B board played_move;
                   info_after = engine (n + 1) board1;
                   score_after = score_cp (info_score info_after);
                   move_number = board_fullmove_number B board1
               in analyze_game2_loop B score_cp engine (n + 2) board1 rest
                    (case (score_before, score_after) of
                       (Some sb, Some sa) \<Rightarrow>
                         if \<bar>sb - sa\<bar> \<ge> 200 \<and> Some played_move \<noteq> best_move
                         then big_drops @ [(move_number, played_move, best_move, sb, sa)]
                         else big_drops
                     | _ \<Rightarrow> big_drops))))"

definition analyze_game2 ::
  "('b, 'm) py_board \<Rightarrow> (score \<Rightarrow> int option) \<Rightarrow> (nat \<Rightarrow> 'b \<Rightarrow> 'm info) \<Rightarrow> 'b \<Rightarrow> 'm list \<Rightarrow>
   py_error + 'm big_drop2 list" where
  "analyze_game2 B score_cp engine board moves = analyze_game2_loop B score_cp engine 0 board moves []"

section \<open>The game analyzer of local mode (analyzeGame of the module stockfish-engine)\<close>

text \<open>
  \<^verbatim>\<open>RealStockfishEngine.analyzeCompleteGame\<close> imports the module \<^verbatim>\<open>./stockfish-engine\<close> and
  returns what its \<^verbatim>\<open>stockfishEngine.analyzeGame(pgn, 15)\<close> returns. The module is not
  among the sources; the analyzer is modelled from the specification of the Game Analyzer,
  run on the local evaluation source, which is the position evaluator above.
\<close>

text \<open>
  Modelled from the spec: the evaluation configuration of the missing \<^verbatim>\<open>analyzeGame\<close>,
  as far as the analyzer reads it in local mode: the blunder threshold, in centipawns,
  and the optional cap on the number of plies analyzed.
\<close>

record analyzer_config =
  blunder_threshold :: int
  max_plies :: "nat option"

text \<open>
  Modelled from the spec: the MoveRecord and the GameReport that the missing
  \<^verbatim>\<open>analyzeGame\<close> builds: ply index, side to move, move notation, score before, score
  after, suggested best move and the classification; the report is the sequence of the
  records and \<^verbatim>\<open>hasBlunders\<close>. The transcript lines of the report, which the
  specification calls derived and never authoritative and whose form it leaves open, are
  left out.
\<close>

record MoveRecord =
  ply_index :: nat
  side_to_move :: color
  move_notation :: string
  score_before :: score
  score_after :: score
  suggested_best_move :: string
  isBlunder :: bool

record GameReport =
  move_records :: "MoveRecord list"
  report_hasBlunders :: bool

text \<open>
  Modelled from the spec: step 4 of the missing \<^verbatim>\<open>analyzeGame\<close>, the conversion that
  turns a mate distance into the sentinel of 10000 centipawns with the sign of the
  favoured side and leaves a centipawn score as it is.
\<close>

definition spec_normalize :: "score \<Rightarrow> int" where
  "spec_normalize s = (case s of Mate n \<Rightarrow> if n > 0 then 10000 else - 10000 | Cp c \<Rightarrow> c)"

text \<open>
  Modelled from the spec: steps 5 and 6 of the missing \<^verbatim>\<open>analyzeGame\<close>. The delta is the
  absolute difference of the normalized scores; a move is a blunder when the delta
  exceeds the configured threshold and the move played differs from the suggested one.
\<close>

definition spec_delta :: "score \<Rightarrow> score \<Rightarrow> int" where
  "spec_delta sb sa = \<bar>spec_normalize sb - spec_normalize sa\<bar>"

definition spec_isBlunder :: "analyzer_config \<Rightarrow> score \<Rightarrow> score \<Rightarrow> string \<Rightarrow> string \<Rightarrow> bool" where
  "spec_isBlunder cfg sb sa played suggested =
     (spec_delta sb sa > blunder_threshold cfg \<and> played \<noteq> suggested)"

text \<open>
  Modelled from the spec: the local evaluation source that the missing \<^verbatim>\<open>analyzeGame\<close>
  asks. It delegates to the position evaluator and always succeeds: the score is the
  centipawn value of \<^verbatim>\<open>calculateStockfishStyleEvaluation\<close>, the suggested move the result
  of the depth-1 search \<^verbatim>\<open>findBestMoveUsingEvaluation\<close>, the sentinel \<^verbatim>\<open>none\<close> when the
  search has no move to give.
\<close>

definition local_source :: "'p rules \<Rightarrow> 'p Chess \<Rightarrow> score \<times> string" where
  "local_source R chess =
     (Cp (calculateStockfishStyleEvaluation R chess),
      (case fst (findBestMoveUsingEvaluation R chess) of
         Inr s \<Rightarrow> s
       | Inl e \<Rightarrow> ''none''))"

text \<open>
  Modelled from the spec: the loop of the missing \<^verbatim>\<open>analyzeGame\<close> over the moves still to
  be analyzed, \<open>k\<close> the index of the next ply. For each move in order: evaluate the
  position before the move (score and suggested move), apply the move, evaluate the
  resulting position, normalize, compare and classify, append the record. A move that the
  rules capability rejects is treated as an extraction error: it ends the list of moves,
  not the run.
\<close>

fun AnalyzeGame_loop ::
  "analyzer_config \<Rightarrow> 'p rules \<Rightarrow> ('p Chess \<Rightarrow> score \<times> string) \<Rightarrow> nat \<Rightarrow> string list \<Rightarrow> 'p Chess \<Rightarrow>
   MoveRecord list \<Rightarrow> MoveRecord list" where
  "AnalyzeGame_loop cfg R source k [] chess records = records"
| "AnalyzeGame_loop cfg R source k (m # ms) chess records =
     (case Chess_move_san R chess m of
        None \<Rightarrow> records
      | Some chess1 \<Rightarrow>
          AnalyzeGame_loop cfg R source (k + 1) ms chess1
            (records @
             [\<lparr>ply_index = k,
               side_to_move = chess_turn R (position chess),
               move_notation = m,
               score_before = fst (source chess),
               score_after = fst (source chess1),
               suggested_best_move = snd (source chess),
               isBlunder = spec_isBlunder cfg (fst (source chess)) (fst (source chess1)) m
                             (snd (source chess))\<rparr>]))"

text \<open>
  Modelled from the spec: the missing \<^verbatim>\<open>analyzeGame\<close> itself, on a list of moves. The
  configuration may cap the number of plies; plies count from 1; \<^verbatim>\<open>hasBlunders\<close> is true
  if and only if some record is a blunder.
\<close>

definition AnalyzeGame ::
  "analyzer_config \<Rightarrow> 'p rules \<Rightarrow> ('p Chess \<Rightarrow> score \<times> string) \<Rightarrow> string list \<Rightarrow> GameReport" where
  "AnalyzeGame cfg R source moveList =
     (let records = AnalyzeGame_loop cfg R source 1
                      (case max_plies cfg of None \<Rightarrow> moveList | Some n \<Rightarrow> take n moveList)
                      (Chess_reset R) []
      in \<lparr>move_records = records, report_hasBlunders = list_ex isBlunder records\<rparr>)"

section \<open>Notions used to state the properties\<close>

text \<open>
  The score the search gives a move: the negated evaluation of the position after it
  (\<open>0\<close> stands in for a move that chess.js rejects, which has no score).
\<close>

definition negated_score :: "'p rules \<Rightarrow> 'p Chess \<Rightarrow> Move \<Rightarrow> int" where
  "negated_score R chess m =
     (case Chess_move R chess m of
        None \<Rightarrow> 0
      | Some chess1 \<Rightarrow> - calculateStockfishStyleEvaluation R chess1)"

text \<open>The library accepts each of the moves on the object: true of the moves it lists as legal.\<close>

definition playable :: "'p rules \<Rightarrow> 'p Chess \<Rightarrow> Move list \<Rightarrow> bool" where
  "playable R chess ms = list_all (\<lambda>m. Chess_move R chess m \<noteq> None) ms"

text \<open>
  \<^verbatim>\<open>getGamePhaseEvaluation\<close>, a private method of the engine that no other method calls.
  It draws from \<^verbatim>\<open>Math.random()\<close>; numbers are real numbers here.
\<close>

definition getGamePhaseEvaluation :: "(nat \<Rightarrow> real) \<Rightarrow> real \<Rightarrow> real" where
  "getGamePhaseEvaluation random n =
     (if n \<le> 8 then sin (n * 0.3) * 45 + (random 0 - 0.5) * 30
      else if n \<le> 25 then sin (n * 0.2) * 80 + (random 0 - 0.5) * 60
      else sin (n * 0.15) * 35 + (random 0 - 0.5) * 25)"

text \<open>What an analysis of a position reports as score and best move, or the exception.\<close>

definition score_of :: "exn + RealPositionAnalysis \<Rightarrow> exn + int \<times> string" where
  "score_of r =
     (case r of
        Inl e \<Rightarrow> Inl e
      | Inr a \<Rightarrow> Inr (evaluation_re (currentEvaluation a), bestMove_re (currentEvaluation a)))"

text \<open>The ply number that a line of the transcript shows, when it is a move line.\<close>

fun line_ply :: "'n output_line \<Rightarrow> nat option" where
  "line_ply (Move_line n m t) = Some n"
| "line_ply l = None"

text \<open>
  The integer that a double holds (rounded down when it holds none, 0 for an infinity
  and \<^verbatim>\<open>NaN\<close>); and the tagged score that a record of the remote analyzer stands for:
  a mate when the service reported one, the centipawns of the record otherwise.
\<close>

definition d_to_int :: "double \<Rightarrow> int" where
  "d_to_int x =
     (case x of
        Finite m e \<Rightarrow> if e \<ge> 0 then m * 2 ^ nat e else m div 2 ^ nat (- e)
      | Infinity s \<Rightarrow> 0
      | NaN \<Rightarrow> 0)"

definition spec_record_score :: "double MoveEvaluation \<Rightarrow> score" where
  "spec_record_score r =
     (case mate_me r of Some n \<Rightarrow> Mate n | None \<Rightarrow> Cp (d_to_int (evaluation_me r)))"

text \<open>
  Two engines give a script the same information when, at every call, their best moves
  agree and so do their scores as the script reads them (\<open>view\<close>).
\<close>

definition same_reading ::
  "(score \<Rightarrow> 'v) \<Rightarrow> (nat \<Rightarrow> 'b \<Rightarrow> 'm info) \<Rightarrow> (nat \<Rightarrow> 'b \<Rightarrow> 'm info) \<Rightarrow> bool" where
  "same_reading view engine engine' =
     (\<forall>n b. view (info_score (engine n b)) = view (info_score (engine' n b))
            \<and> best_move_of (engine n b) = best_move_of (engine' n b))"

text \<open>
  Playing a list of moves on a \<^verbatim>\<open>Chess\<close> object: the object after the last move, or
  \<open>None\<close> when chess.js rejects one of them.
\<close>

fun play_all :: "'p rules \<Rightarrow> 'p Chess \<Rightarrow> string list \<Rightarrow> 'p Chess option" where
  "play_all R chess [] = Some chess"
| "play_all R chess (m # ms) =
     (case Chess_move_san R chess m of
        None \<Rightarrow> None
      | Some chess1 \<Rightarrow> play_all R chess1 ms)"

text \<open>
  A line of a PGN that is a header or blank: it holds no line feed and, trimmed, it is
  empty, or it starts with an opening bracket and either ends with a closing one or
  holds none (a header left open).
\<close>

definition header_or_blank :: "string \<Rightarrow> bool" where
  "header_or_blank l =
     (CHR 0x0A \<notin> set l \<and>
      (trim l = [] \<or>
       (starts_with (trim l) ''['' \<and> (CHR '']'' \<notin> set (trim l) \<or> last (trim l) = CHR '']''))))"

section \<open>Concrete inputs\<close>

text \<open>
  A small instance of the rules capability, for evaluating the definitions on concrete
  inputs. Its positions are numbers. It knows two lines of play from the initial position
  \<open>0\<close>: the opening \<^verbatim>\<open>1. e4 e5 2. Nf3 Nc6 3. Bb5\<close> (positions \<open>1\<close> to \<open>5\<close>), and the
  knights going out and home again without end, \<^verbatim>\<open>1. Nf3 Nf6 2. Ng1 Ng8 3. Nf3\<close> and so
  on (positions from \<open>7\<close> on). As move objects it lists three legal moves in the initial
  position, leading to the positions \<open>1\<close>, \<open>6\<close> and \<open>7\<close>. The board is left empty;
  positions differ in the castling rights.
\<close>

definition example_line :: "string list" where
  "example_line = [''e4'', ''e5'', ''Nf3'', ''Nc6'', ''Bb5'']"

definition knights_cycle :: "string list" where
  "knights_cycle = [''Nf3'', ''Nf6'', ''Ng1'', ''Ng8'']"

definition knights_line :: "string list" where
  "knights_line = concat (replicate 8 knights_cycle)"

definition knights_pgn :: string where
  "knights_pgn = join '' '' knights_line"

definition example_move :: "string \<Rightarrow> piece_type \<Rightarrow> string \<Rightarrow> Move" where
  "example_move s t sq = \<lparr>san = s, flags = ''n'', piece = t, captured = None, to = sq\<rparr>"

definition example_moves :: "Move list" where
  "example_moves =
     [example_move ''e4'' Pawn ''e4'', example_move ''d4'' Pawn ''d4'',
      example_move ''Nf3'' Knight ''f3'']"

definition example_rules :: "nat rules" where
  "example_rules =
     \<lparr>chess_new = 0,
      chess_new_fen = (\<lambda>f. if f = ''startpos'' then Some 0 else None),
      chess_loadPgn = (\<lambda>s. if s = ''1. e4 e5 2. Nf3 Nc6 3. Bb5'' then Some example_line
                            else if s = knights_pgn then Some knights_line else None),
      chess_move_san = (\<lambda>p s. if p < 5 \<and> s = example_line ! p then Some (p + 1)
                               else if p = 0 \<and> s = ''Nf3'' then Some 7
                               else if 7 \<le> p \<and> s = knights_cycle ! ((p - 6) mod 4) then Some (p + 1)
                               else None),
      chess_move_obj = (\<lambda>p m. if p = 0 \<and> san m = ''e4'' then Some 1
                               else if p = 0 \<and> san m = ''d4'' then Some 6
                               else if p = 0 \<and> san m = ''Nf3'' then Some 7
                               else None),
      chess_fen = (\<lambda>p. replicate p CHR ''x''),
      chess_moves = (\<lambda>p. if p = 0 then example_moves else []),
      chess_moves_square = (\<lambda>p sq. []),
      chess_board = (\<lambda>p rank file. None),
      chess_get = (\<lambda>p sq. None),
      chess_turn = (\<lambda>p. if p \<in> {0, 2, 4} then White else Black),
      chess_inCheck = (\<lambda>p. False),
      chess_getCastlingRights =
        (\<lambda>p c. \<lparr>castle_k = (p = 6 \<and> c = Black), castle_q = (p = 6 \<and> c = Black)\<rparr>),
      chess_moveNumber = (\<lambda>p. p div 2 + 1)\<rparr>"

definition example_chess :: "nat Chess" where
  "example_chess = \<lparr>position = 0, history = []\<rparr>"

text \<open>
  The number that a decimal with \<open>k\<close> digits after the point denotes in a JSON body:
  the double nearest to it.
\<close>

definition decimal :: "int \<Rightarrow> nat \<Rightarrow> double" where
  "decimal n k = d_int_div n (10 ^ k)"

definition example_analysis :: "double js_value \<Rightarrow> int option \<Rightarrow> double StockfishApiAnalysis" where
  "example_analysis e m =
     \<lparr>success = True, evaluation = e, mate = m, bestmove = ''bestmove e2e4 ponder e7e5'',
      continuation = ''e2e4 e7e5''\<rparr>"

text \<open>
  Networks for the game analyzer: one where every request succeeds, the evaluation
  rising by a quarter pawn per ply; one where every first attempt is answered 503 and
  the second succeeds with 0.2; one that is down; one where the evaluation falls
  from 1.5 to -1.5 after the first ply, the service having suggested \<^verbatim>\<open>e7e5\<close>; one
  that reports 0.3 and then, from the second ply on, a mate in 3 with the evaluation
  \<^verbatim>\<open>null\<close>; one whose evaluations are 1.2, 2.2 and then 2.2 again; one whose evaluations
  are 0.3, 1.3 and then 1.3 again; one whose evaluations are 1.005, 1.115, 0.285 and
  then 2.5; and one that answers the second ply with the evaluation \<^verbatim>\<open>null\<close> and no mate.
\<close>

definition example_pgn :: string where
  "example_pgn = ''1. e4 e5 2. Nf3 Nc6 3. Bb5''"

definition net_up :: "nat \<Rightarrow> string \<Rightarrow> nat \<Rightarrow> double attempt" where
  "net_up i fen k = Json (example_analysis (Number (d_int_div (int i) 4)) None)"

definition net_flat :: "nat \<Rightarrow> string \<Rightarrow> nat \<Rightarrow> double attempt" where
  "net_flat i fen k =
     (if k = 0 then Response_not_ok 503 else Json (example_analysis (Number (decimal 2 1)) None))"

definition net_down :: "nat \<Rightarrow> string \<Rightarrow> nat \<Rightarrow> double attempt" where
  "net_down i fen k = Thrown ''fetch failed''"

definition net_drop :: "nat \<Rightarrow> string \<Rightarrow> nat \<Rightarrow> double attempt" where
  "net_drop i fen k =
     Json \<lparr>success = True, evaluation = Number (if i = 0 then decimal 15 1 else decimal (- 15) 1),
           mate = None,
           bestmove = (if i = 0 then ''bestmove e7e5 ponder g1f3'' else ''bestmove g1f3 ponder b8c6''),
           continuation = ''''\<rparr>"

definition net_mate :: "nat \<Rightarrow> string \<Rightarrow> nat \<Rightarrow> double attempt" where
  "net_mate i fen k =
     Json (if i = 0 then example_analysis (Number (decimal 3 1)) None
           else example_analysis Null (Some 3))"

definition net_tenths :: "nat \<Rightarrow> string \<Rightarrow> nat \<Rightarrow> double attempt" where
  "net_tenths i fen k =
     Json (example_analysis (Number (if i = 0 then decimal 12 1 else decimal 22 1)) None)"

definition net_tenths_low :: "nat \<Rightarrow> string \<Rightarrow> nat \<Rightarrow> double attempt" where
  "net_tenths_low i fen k =
     Json (example_analysis (Number (if i = 0 then decimal 3 1 else decimal 13 1)) None)"

definition net_thousandths :: "nat \<Rightarrow> string \<Rightarrow> nat \<Rightarrow> double attempt" where
  "net_thousandths i fen k =
     Json (example_analysis
             (Number (if i = 0 then decimal 1005 3 else if i = 1 then decimal 1115 3
                      else if i = 2 then decimal 285 3 else decimal 25 1)) None)"

definition net_null :: "nat \<Rightarrow> string \<Rightarrow> nat \<Rightarrow> double attempt" where
  "net_null i fen k =
     Json (example_analysis (if i = 1 then Null else Number (decimal 2 1)) None)"

text \<open>
  For the Python scripts: boards are the lists of the moves played, moves are their
  notations; an engine that answers the first call with a score and a best move and
  every later call with another score; and a conversion to centipawns.
\<close>

definition example_board :: "(string list, string) py_board" where
  "example_board =
     \<lparr>board_push = (\<lambda>b m. b @ [m]),
      board_san = (\<lambda>b m. Some m),
      board_is_legal = (\<lambda>b m. True),
      board_fullmove_number = (\<lambda>b. length b div 2 + 1),
      move_str = (\<lambda>m. m)\<rparr>"

definition example_engine :: "int \<Rightarrow> int \<Rightarrow> string \<Rightarrow> nat \<Rightarrow> string list \<Rightarrow> string info" where
  "example_engine sb sa best n b =
     (if n = 0 then \<lparr>info_score = Cp sb, info_pv = Some [best]\<rparr>
      else \<lparr>info_score = Cp sa, info_pv = None\<rparr>)"

definition example_score_cp :: "score \<Rightarrow> int option" where
  "example_score_cp s = (case s of Cp c \<Rightarrow> Some c | Mate n \<Rightarrow> Some (if n > 0 then 10000 - n else - 10000 - n))"

definition example_engine_mate :: "nat \<Rightarrow> string list \<Rightarrow> string info" where
  "example_engine_mate n b =
     (if n = 0 then \<lparr>info_score = Mate 3, info_pv = Some [''Qh5'']\<rparr>
      else \<lparr>info_score = Cp 50, info_pv = None\<rparr>)"

definition example_engine_mate_far :: "nat \<Rightarrow> string list \<Rightarrow> string info" where
  "example_engine_mate_far n b =
     (if n = 0 then \<lparr>info_score = Mate 7, info_pv = Some [''Qh5'', ''g6'']\<rparr>
      else \<lparr>info_score = Cp 50, info_pv = None\<rparr>)"

definition example_record :: "double js_value \<Rightarrow> int option \<Rightarrow> string \<Rightarrow> double MoveEvaluation" where
  "example_record e m best =
     \<lparr>moveNumber = 1, move_me = ''e4     |'',
      evaluation_me = d_round (d_mul (to_number double_ops e) (d_of_int 100)),
      evaluationFloat = e, mate_me = m, bestMove = best\<rparr>"


text \<open>
  Lines in front of the moves: two headers, a header left open (which chess.js cannot
  parse) and a blank line.
\<close>

definition example_headers :: "string list" where
  "example_headers =
     [''[Event '' @ [CHR 0x22] @ ''Casual game'' @ [CHR 0x22] @ '']'',
      ''[Result '' @ [CHR 0x22] @ ''1-0'' @ [CHR 0x22] @ '']'',
      ''[White '' @ [CHR 0x22] @ ''Nf3 fan'',
      '''']"

section \<open>Properties of the retry controller\<close>

lemma analyzePosition_stop:
  "\<not> (retryable (net rc) \<and> rc < maxRetries) \<Longrightarrow>
   analyzePosition net rc = (settle (net rc), [Fetch rc])"
  by (subst analyzePosition.simps) (auto split: attempt.splits)

lemma analyzePosition_again:
  "retryable (net rc) \<Longrightarrow> rc < maxRetries \<Longrightarrow>
   analyzePosition net rc =
     (fst (analyzePosition net (Suc rc)),
      Fetch rc # Sleep (600 + 200 * rc) # snd (analyzePosition net (Suc rc)))"
  by (subst analyzePosition.simps) (auto simp: baseDelay_def split: attempt.splits prod.splits)

lemma analyzePosition_cases:
  "analyzePosition net 0 =
     (if \<not> retryable (net 0) then (settle (net 0), [Fetch 0])
      else if \<not> retryable (net 1) then (settle (net 1), [Fetch 0, Sleep 600, Fetch 1])
      else (settle (net 2), [Fetch 0, Sleep 600, Fetch 1, Sleep 800, Fetch 2]))"
proof -
  have two: "analyzePosition net 2 = (settle (net 2), [Fetch 2])"
    by (rule analyzePosition_stop) (simp add: maxRetries_def)
  have one: "analyzePosition net 1 =
      (if \<not> retryable (net 1) then (settle (net 1), [Fetch 1])
       else (settle (net 2), [Fetch 1, Sleep 800, Fetch 2]))"
    using analyzePosition_stop [of net 1] analyzePosition_again [of net 1] two
    by (simp add: maxRetries_def numeral_2_eq_2)
  show ?thesis
    using analyzePosition_stop [of net 0] analyzePosition_again [of net 0] one
    by (simp add: maxRetries_def)
qed

lemma settle_Inl: "settle a = Inl e \<Longrightarrow> e = failed_position"
  by (cases a) (auto split: if_splits)

lemma settle_Inr: "settle a = Inr d \<Longrightarrow> success d"
  by (cases a) (auto split: if_splits)

lemma analyzePosition_success: "fst (analyzePosition net 0) = Inr d \<Longrightarrow> success d"
  by (auto simp: analyzePosition_cases split: if_splits dest: settle_Inr)

text \<open>
  C4, as the code has it. One call sends at most three requests. The delays it sleeps
  are the first \<open>n \<le> 2\<close> of 600 ms, 800 ms, that is 600 + 200 (k - 1) before the k-th
  retry. After two retryable failures and a success, the call returns that success and
  has slept 600 ms and 800 ms. After two retryable failures and a third failure, and
  whenever it fails, the call rejects with the one fixed error
  \<^verbatim>\<open>Failed to analyze position with Stockfish API\<close>, whatever the last attempt met.
\<close>

theorem analyzePosition_bounded_retries:
  "fetch_count (snd (analyzePosition net 0)) \<le> 3
   \<and> (\<exists>n \<le> 2. sleeps (snd (analyzePosition net 0)) = map (\<lambda>k. 600 + 200 * k) [0..<n])
   \<and> (retryable (net 0) \<and> retryable (net 1) \<and> net 2 = Json d \<and> success d \<longrightarrow>
        analyzePosition net 0 = (Inr d, [Fetch 0, Sleep 600, Fetch 1, Sleep 800, Fetch 2]))
   \<and> (retryable (net 0) \<and> retryable (net 1) \<and> settle (net 2) = Inl e \<longrightarrow>
        analyzePosition net 0 =
          (Inl failed_position, [Fetch 0, Sleep 600, Fetch 1, Sleep 800, Fetch 2]))
   \<and> (\<forall>e'. fst (analyzePosition net 0) = Inl e' \<longrightarrow> e' = failed_position)"
proof -
  have "[0..<2] = [0, Suc 0]" by (simp add: numeral_2_eq_2)
  then have sl: "\<exists>n \<le> 2. sleeps (snd (analyzePosition net 0)) = map (\<lambda>k. 600 + 200 * k) [0..<n]"
    by (cases "retryable (net 0)"; cases "retryable (net 1)")
       (auto simp: analyzePosition_cases intro: exI [of _ 0] exI [of _ 1] exI [of _ 2])
  show ?thesis using sl
    by (auto simp: analyzePosition_cases dest: settle_Inl)
qed

text \<open>
  The theorem at a network that throws, then answers 503, then answers a successful
  analysis.
\<close>

theorem analyzePosition_bounded_retries_witness:
  "analyzePosition
     (\<lambda>k. if k = 0 then Thrown ''fetch failed'' else if k = 1 then Response_not_ok 503
           else Json (example_analysis (Number (decimal 5 1)) None)) 0
   = (Inr (example_analysis (Number (decimal 5 1)) None), [Fetch 0, Sleep 600, Fetch 1, Sleep 800, Fetch 2])"
  using analyzePosition_bounded_retries
    [of "\<lambda>k. if k = 0 then Thrown ''fetch failed'' else if k = 1 then Response_not_ok 503
              else Json (example_analysis (Number (decimal 5 1)) None)" "example_analysis (Number (decimal 5 1)) None"]
  by (simp add: example_analysis_def)

text \<open>
  C4 as stated fails in its last part: when all three attempts throw
  \<^verbatim>\<open>fetch failed\<close>, the call does not reject with that last error but with the fixed
  one.
\<close>

theorem analyzePosition_last_error_counterexample:
  "fst (analyzePosition (\<lambda>k. Thrown ''fetch failed'' :: double attempt) 0) = Inl failed_position
   \<and> failed_position \<noteq> ''fetch failed''"
  by (simp add: analyzePosition_cases failed_position_def)

section \<open>Properties of the best-move search\<close>

lemma Chess_move_undo: "Chess_move R chess move = Some chess1 \<Longrightarrow> Chess_undo chess1 = chess"
  by (auto simp: Chess_move_def Chess_undo_def split: option.splits)

lemma findBest_loop_frame: "snd (findBest_loop R moves bm be chess) = chess"
  by (induction moves arbitrary: bm be)
     (auto simp: Let_def Chess_move_undo split: option.splits)

lemma getTopAlternatives_map_frame: "snd (getTopAlternatives_map R moves chess) = chess"
proof (induction moves)
  case Nil
  show ?case by simp
next
  case (Cons move moves)
  show ?case
  proof (cases "Chess_move R chess move")
    case None
    then show ?thesis by simp
  next
    case (Some chess1)
    then have u: "Chess_undo chess1 = chess" by (rule Chess_move_undo)
    obtain r c where rc: "getTopAlternatives_map R moves chess = (r, c)" by fastforce
    with Cons.IH have "c = chess" by simp
    with Some u rc show ?thesis by (cases r) (simp_all add: Let_def)
  qed
qed

text \<open>
  C9. The depth-1 best-move search and the top-alternatives enumeration return the
  \<^verbatim>\<open>Chess\<close> object as they received it, position and history: each move they make is
  undone, and a move that chess.js rejects changes nothing. This holds in every
  position, with or without legal moves, and also when the search ends with an exception.
\<close>

theorem search_leaves_board_unchanged:
  "snd (findBestMoveUsingEvaluation R chess) = chess \<and>
   snd (getTopAlternativesWithEvaluation R chess) = chess"
proof
  obtain r c where rc: "findBest_loop R (chess_moves R (position chess)) (hd (chess_moves R (position chess))) None chess = (r, c)"
    by fastforce
  then have "c = chess" using findBest_loop_frame [of R "chess_moves R (position chess)" "hd (chess_moves R (position chess))" None chess] by simp
  with rc show "snd (findBestMoveUsingEvaluation R chess) = chess"
    by (cases r) (simp_all add: findBestMoveUsingEvaluation_def Let_def)
next
  show "snd (getTopAlternativesWithEvaluation R chess) = chess"
    by (simp add: getTopAlternativesWithEvaluation_def getTopAlternatives_map_frame)
qed


lemma findBest_loop_best:
  assumes "playable R chess moves"
  shows "\<exists>r. fst (findBest_loop R moves bm be chess) = Inr r \<and>
     ((r = bm \<and> (\<forall>m \<in> set moves. \<not> exceeds (negated_score R chess m) be)) \<or>
      (\<exists>i < length moves. r = moves ! i \<and> exceeds (negated_score R chess (moves ! i)) be \<and>
          (\<forall>j < length moves. negated_score R chess (moves ! j) \<le> negated_score R chess (moves ! i)) \<and>
          (\<forall>j < i. negated_score R chess (moves ! j) < negated_score R chess (moves ! i))))"
  using assms
proof (induction moves arbitrary: bm be)
  case Nil
  show ?case by simp
next
  case (Cons move moves)
  from Cons.prems obtain chess1 where c1: "Chess_move R chess move = Some chess1"
    and pl: "playable R chess moves"
    by (auto simp: playable_def)
  have u: "Chess_undo chess1 = chess" using c1 by (rule Chess_move_undo)
  let ?s = "negated_score R chess"
  have sm: "?s move = - calculateStockfishStyleEvaluation R chess1"
    using c1 by (simp add: negated_score_def)
  show ?case
  proof (cases "exceeds (?s move) be")
    case True
    then have step: "findBest_loop R (move # moves) bm be chess =
        findBest_loop R moves move (Some (?s move)) chess"
      using c1 u sm by (simp add: Let_def)
    from Cons.IH [OF pl, of move "Some (?s move)"]
    obtain r where r: "fst (findBest_loop R moves move (Some (?s move)) chess) = Inr r"
      and alt: "(r = move \<and> (\<forall>m \<in> set moves. \<not> exceeds (?s m) (Some (?s move)))) \<or>
        (\<exists>i < length moves. r = moves ! i \<and> exceeds (?s (moves ! i)) (Some (?s move)) \<and>
          (\<forall>j < length moves. ?s (moves ! j) \<le> ?s (moves ! i)) \<and>
          (\<forall>j < i. ?s (moves ! j) < ?s (moves ! i)))"
      by blast
    from alt have "\<exists>i < length (move # moves). r = (move # moves) ! i \<and>
          exceeds (?s ((move # moves) ! i)) be \<and>
          (\<forall>j < length (move # moves). ?s ((move # moves) ! j) \<le> ?s ((move # moves) ! i)) \<and>
          (\<forall>j < i. ?s ((move # moves) ! j) < ?s ((move # moves) ! i))"
    proof
      assume a: "r = move \<and> (\<forall>m \<in> set moves. \<not> exceeds (?s m) (Some (?s move)))"
      then have le: "\<forall>j < length moves. ?s (moves ! j) \<le> ?s move"
        by (auto simp: not_less)
      have "r = (move # moves) ! 0 \<and> exceeds (?s ((move # moves) ! 0)) be \<and>
          (\<forall>j < length (move # moves). ?s ((move # moves) ! j) \<le> ?s ((move # moves) ! 0)) \<and>
          (\<forall>j < 0. ?s ((move # moves) ! j) < ?s ((move # moves) ! 0))"
        using a True le by (auto simp: nth_Cons')
      then show ?thesis by (intro exI [of _ 0]) simp
    next
      assume "\<exists>i < length moves. r = moves ! i \<and> exceeds (?s (moves ! i)) (Some (?s move)) \<and>
          (\<forall>j < length moves. ?s (moves ! j) \<le> ?s (moves ! i)) \<and>
          (\<forall>j < i. ?s (moves ! j) < ?s (moves ! i))"
      then obtain i where i: "i < length moves" "r = moves ! i" "?s move < ?s (moves ! i)"
        "\<forall>j < length moves. ?s (moves ! j) \<le> ?s (moves ! i)"
        "\<forall>j < i. ?s (moves ! j) < ?s (moves ! i)"
        by auto
      have ex: "exceeds (?s (moves ! i)) be"
        using True i(3) by (cases be) auto
      have "Suc i < length (move # moves) \<and> r = (move # moves) ! Suc i \<and>
          exceeds (?s ((move # moves) ! Suc i)) be \<and>
          (\<forall>j < length (move # moves). ?s ((move # moves) ! j) \<le> ?s ((move # moves) ! Suc i)) \<and>
          (\<forall>j < Suc i. ?s ((move # moves) ! j) < ?s ((move # moves) ! Suc i))"
        using i ex by (auto simp: nth_Cons' less_Suc_eq_0_disj)
      then show ?thesis by blast
    qed
    with r step show ?thesis by auto
  next
    case False
    then obtain b where b: "be = Some b" "?s move \<le> b"
      by (cases be) auto
    from False have step: "findBest_loop R (move # moves) bm be chess =
        findBest_loop R moves bm be chess"
      using c1 u sm by (simp add: Let_def)
    from Cons.IH [OF pl, of bm be]
    obtain r where r: "fst (findBest_loop R moves bm be chess) = Inr r"
      and alt: "(r = bm \<and> (\<forall>m \<in> set moves. \<not> exceeds (?s m) be)) \<or>
        (\<exists>i < length moves. r = moves ! i \<and> exceeds (?s (moves ! i)) be \<and>
          (\<forall>j < length moves. ?s (moves ! j) \<le> ?s (moves ! i)) \<and>
          (\<forall>j < i. ?s (moves ! j) < ?s (moves ! i)))"
      by blast
    from alt have "(r = bm \<and> (\<forall>m \<in> set (move # moves). \<not> exceeds (?s m) be)) \<or>
      (\<exists>i < length (move # moves). r = (move # moves) ! i \<and>
          exceeds (?s ((move # moves) ! i)) be \<and>
          (\<forall>j < length (move # moves). ?s ((move # moves) ! j) \<le> ?s ((move # moves) ! i)) \<and>
          (\<forall>j < i. ?s ((move # moves) ! j) < ?s ((move # moves) ! i)))"
    proof
      assume "r = bm \<and> (\<forall>m \<in> set moves. \<not> exceeds (?s m) be)"
      then show ?thesis using False by auto
    next
      assume "\<exists>i < length moves. r = moves ! i \<and> exceeds (?s (moves ! i)) be \<and>
          (\<forall>j < length moves. ?s (moves ! j) \<le> ?s (moves ! i)) \<and>
          (\<forall>j < i. ?s (moves ! j) < ?s (moves ! i))"
      then obtain i where i: "i < length moves" "r = moves ! i" "b < ?s (moves ! i)"
        "\<forall>j < length moves. ?s (moves ! j) \<le> ?s (moves ! i)"
        "\<forall>j < i. ?s (moves ! j) < ?s (moves ! i)"
        using b by auto
      have "Suc i < length (move # moves) \<and> r = (move # moves) ! Suc i \<and>
          exceeds (?s ((move # moves) ! Suc i)) be \<and>
          (\<forall>j < length (move # moves). ?s ((move # moves) ! j) \<le> ?s ((move # moves) ! Suc i)) \<and>
          (\<forall>j < Suc i. ?s ((move # moves) ! j) < ?s ((move # moves) ! Suc i))"
        using i b by (auto simp: nth_Cons' less_Suc_eq_0_disj)
      then show ?thesis by blast
    qed
    with r step show ?thesis by auto
  qed
qed


text \<open>
  C5. Let chess.js accept each move it lists as legal. With no legal move the search
  returns \<^verbatim>\<open>'none'\<close>, and throws nothing. With legal moves it returns the notation of
  the move at an index \<open>i\<close> of the list whose negated evaluation is maximal, and
  strictly greater than that of every earlier move: the first one among the best. As no
  move is written \<^verbatim>\<open>none\<close>, the answer is \<^verbatim>\<open>'none'\<close> exactly when there is no legal
  move.
\<close>

theorem findBestMove_depth1:
  assumes "playable R chess (chess_moves R (position chess))"
  shows "(chess_moves R (position chess) = [] \<longrightarrow>
            fst (findBestMoveUsingEvaluation R chess) = Inr ''none'')
       \<and> (chess_moves R (position chess) \<noteq> [] \<longrightarrow>
            (\<exists>i < length (chess_moves R (position chess)).
               fst (findBestMoveUsingEvaluation R chess) = Inr (san (chess_moves R (position chess) ! i))
               \<and> (\<forall>j < length (chess_moves R (position chess)).
                     negated_score R chess (chess_moves R (position chess) ! j)
                       \<le> negated_score R chess (chess_moves R (position chess) ! i))
               \<and> (\<forall>j < i. negated_score R chess (chess_moves R (position chess) ! j)
                       < negated_score R chess (chess_moves R (position chess) ! i))))
       \<and> (list_all (\<lambda>m. san m \<noteq> ''none'') (chess_moves R (position chess)) \<longrightarrow>
            (fst (findBestMoveUsingEvaluation R chess) = Inr ''none'')
              = (chess_moves R (position chess) = []))"
proof -
  let ?ms = "chess_moves R (position chess)"
  let ?s = "negated_score R chess"
  have empty: "?ms = [] \<Longrightarrow> fst (findBestMoveUsingEvaluation R chess) = Inr ''none''"
    by (simp add: findBestMoveUsingEvaluation_def)
  have best: "\<exists>i < length ?ms.
       fst (findBestMoveUsingEvaluation R chess) = Inr (san (?ms ! i))
       \<and> (\<forall>j < length ?ms. ?s (?ms ! j) \<le> ?s (?ms ! i))
       \<and> (\<forall>j < i. ?s (?ms ! j) < ?s (?ms ! i))" if ne: "?ms \<noteq> []"
  proof -
    from findBest_loop_best [OF assms, of "hd ?ms" None]
    obtain r where r: "fst (findBest_loop R ?ms (hd ?ms) None chess) = Inr r"
      and alt: "(r = hd ?ms \<and> (\<forall>m \<in> set ?ms. \<not> exceeds (?s m) None)) \<or>
         (\<exists>i < length ?ms. r = ?ms ! i \<and> exceeds (?s (?ms ! i)) None \<and>
            (\<forall>j < length ?ms. ?s (?ms ! j) \<le> ?s (?ms ! i)) \<and>
            (\<forall>j < i. ?s (?ms ! j) < ?s (?ms ! i)))"
      by blast
    from ne have "\<exists>m. m \<in> set ?ms" by (cases ?ms) auto
    with alt obtain i where i: "i < length ?ms" "r = ?ms ! i"
        "\<forall>j < length ?ms. ?s (?ms ! j) \<le> ?s (?ms ! i)" "\<forall>j < i. ?s (?ms ! j) < ?s (?ms ! i)"
      by auto
    obtain x c where xc: "findBest_loop R ?ms (hd ?ms) None chess = (x, c)" by fastforce
    with r have "x = Inr r" by simp
    with xc ne have "fst (findBestMoveUsingEvaluation R chess) = Inr (san r)"
      by (simp add: findBestMoveUsingEvaluation_def)
    with i show ?thesis by blast
  qed
  have iff: "(fst (findBestMoveUsingEvaluation R chess) = Inr ''none'') = (?ms = [])"
    if nn: "list_all (\<lambda>m. san m \<noteq> ''none'') ?ms"
  proof (cases "?ms = []")
    case True
    with empty show ?thesis by simp
  next
    case False
    from best [OF False] obtain i where i: "i < length ?ms"
      "fst (findBestMoveUsingEvaluation R chess) = Inr (san (?ms ! i))" by blast
    from nn i(1) have "san (?ms ! i) \<noteq> ''none''" by (simp add: list_all_length)
    with i False show ?thesis by simp
  qed
  from empty best iff show ?thesis by blast
qed


text \<open>
  The theorem in the initial position of the example rules: three legal moves with the
  scores 0, 50 and 0, and the search answers the second one.
\<close>

lemma example_playable:
  "playable example_rules example_chess (chess_moves example_rules (position example_chess))"
  by code_simp

lemma example_best_move:
  "findBestMoveUsingEvaluation example_rules example_chess = (Inr ''d4'', example_chess)"
  by code_simp

lemma example_scores:
  "map (negated_score example_rules example_chess) (chess_moves example_rules (position example_chess))
     = [0, 50, 0]"
  by code_simp

theorem findBestMove_depth1_witness:
  "playable example_rules example_chess (chess_moves example_rules (position example_chess))
   \<and> (\<exists>i < length (chess_moves example_rules (position example_chess)).
         fst (findBestMoveUsingEvaluation example_rules example_chess)
           = Inr (san (chess_moves example_rules (position example_chess) ! i)))
   \<and> fst (findBestMoveUsingEvaluation example_rules example_chess) = Inr ''d4''"
proof -
  have ne: "chess_moves example_rules (position example_chess) \<noteq> []"
    by (simp add: example_rules_def example_chess_def example_moves_def)
  from findBestMove_depth1 [OF example_playable] ne
  have "\<exists>i < length (chess_moves example_rules (position example_chess)).
         fst (findBestMoveUsingEvaluation example_rules example_chess)
           = Inr (san (chess_moves example_rules (position example_chess) ! i))"
    by blast
  with example_playable example_best_move show ?thesis by simp
qed

section \<open>Properties of the position evaluator\<close>

lemma evaluation_reads_position:
  assumes "position chess1 = position chess2"
  shows "calculateStockfishStyleEvaluation R chess1 = calculateStockfishStyleEvaluation R chess2"
  unfolding calculateStockfishStyleEvaluation_def getMaterialBalance_def
      evaluatePieceActivity_def evaluateKingSafety_def evaluatePawnStructure_def
      evaluatePositionalFactors_def evaluateTacticalFactors_def isIsolatedPawn_def assms
  by (rule refl)

text \<open>
  The phase-based variant is not deterministic: two runs that draw different random
  numbers differ. The evaluator never calls it.
\<close>

lemma getGamePhaseEvaluation_random:
  "getGamePhaseEvaluation (\<lambda>k. 0) n \<noteq> getGamePhaseEvaluation (\<lambda>k. 1 / 2) n"
  by (simp add: getGamePhaseEvaluation_def)

text \<open>
  C8. Two evaluations of the same position give the same score: the evaluation reads
  the current position only, through the rules capability, so two \<^verbatim>\<open>Chess\<close> objects
  in the same position score the same whatever their histories; and two runs of
  \<^verbatim>\<open>analyzePosition\<close> on the same FEN report the same evaluation and the same best move
  (or throw the same exception) whatever \<^verbatim>\<open>Math.random()\<close> returns in each run.
\<close>

theorem evaluation_deterministic:
  "(position chess1 = position chess2 \<longrightarrow>
      calculateStockfishStyleEvaluation R chess1 = calculateStockfishStyleEvaluation R chess2)
   \<and> score_of (RealStockfishEngine_analyzePosition R random1 fen)
       = score_of (RealStockfishEngine_analyzePosition R random2 fen)"
proof
  show "position chess1 = position chess2 \<longrightarrow>
      calculateStockfishStyleEvaluation R chess1 = calculateStockfishStyleEvaluation R chess2"
    by (auto intro: evaluation_reads_position)
next
  show "score_of (RealStockfishEngine_analyzePosition R random1 fen)
       = score_of (RealStockfishEngine_analyzePosition R random2 fen)"
    by (simp add: score_of_def RealStockfishEngine_analyzePosition_def Let_def
      split: option.splits prod.splits sum.splits)
qed

text \<open>
  The theorem at the initial position of the example rules, for two objects with
  different histories and two different random streams: the score is 23 in both runs,
  while the reported node counts differ.
\<close>

lemma example_analysis_low:
  "RealStockfishEngine_analyzePosition example_rules (\<lambda>k. 0) ''startpos'' =
     Inr \<lparr>currentEvaluation =
            \<lparr>evaluation_re = 23, bestMove_re = ''d4'', principalVariation = [''d4''],
             depth = 15, nodes = 150000, time = 1000\<rparr>,
          alternativeMoves =
            [\<lparr>move_alt = ''e4'', evaluation_alt = 0, description = ''Pawn advance''\<rparr>,
             \<lparr>move_alt = ''d4'', evaluation_alt = 50, description = ''Pawn advance''\<rparr>,
             \<lparr>move_alt = ''Nf3'', evaluation_alt = 0, description = ''Development''\<rparr>],
          tacticalThemes = [], positionType = ''Opening''\<rparr>"
  by code_simp

lemma example_analysis_high:
  "map_sum id (\<lambda>a. nodes (currentEvaluation a))
     (RealStockfishEngine_analyzePosition example_rules (\<lambda>k. 9 / 10) ''startpos'') = Inr 240000"
  by code_simp

theorem evaluation_deterministic_witness:
  "position \<lparr>position = 0::nat, history = []\<rparr> = position \<lparr>position = 0::nat, history = [3]\<rparr>
   \<and> calculateStockfishStyleEvaluation example_rules \<lparr>position = 0, history = []\<rparr>
       = calculateStockfishStyleEvaluation example_rules \<lparr>position = 0, history = [3]\<rparr>
   \<and> score_of (RealStockfishEngine_analyzePosition example_rules (\<lambda>k. 9 / 10) ''startpos'')
       = Inr (23, ''d4'')"
  using evaluation_deterministic
    [of "\<lparr>position = 0::nat, history = []\<rparr>" "\<lparr>position = 0::nat, history = [3]\<rparr>"
        example_rules "\<lambda>k. 9 / 10" "''startpos''" "\<lambda>k. 0"]
  by (simp add: example_analysis_low score_of_def)

section \<open>Properties of double-precision arithmetic\<close>

text \<open>
  The multiplication of doubles is commutative, so \<^verbatim>\<open>x * 100\<close> and \<^verbatim>\<open>100 * x\<close> are the same
  number.
\<close>

lemma d_mul_commute: "d_mul x y = d_mul y x"
  by (cases x; cases y) (auto simp: mult.commute add.commute)

text \<open>
  Some values of the arithmetic, which are those of JavaScript and of Python: the
  decimals 1.2 and 2.2 are more than 1.0 apart and 0.3 and 1.3 are not; 2.3 and 0.3 are
  less than 2.0 apart; 1.005, 1.115 and 0.285 times 100 round to 100, 112 and 28.
\<close>

lemma example_decimal: "decimal 12 1 = Finite 5404319552844595 (- 52)"
  by code_simp

lemma example_difference_above:
  "d_sub (decimal 22 1) (decimal 12 1) = Finite 4503599627370497 (- 52)
   \<and> d_of_int 1 = Finite 4503599627370496 (- 52)
   \<and> d_gt (d_abs (d_sub (decimal 22 1) (decimal 12 1))) (d_of_int 1)"
  by code_simp

lemma example_difference_equal:
  "d_sub (decimal 13 1) (decimal 3 1) = d_of_int 1
   \<and> \<not> d_gt (d_abs (d_sub (decimal 13 1) (decimal 3 1))) (d_of_int 1)"
  by code_simp

lemma example_difference_below:
  "d_sub (d_int_div 230 100) (d_int_div 30 100) = Finite 9007199254740991 (- 52)
   \<and> d_of_int 2 = Finite 4503599627370496 (- 51)
   \<and> \<not> d_ge (d_abs (d_sub (d_int_div 230 100) (d_int_div 30 100))) (d_of_int 2)"
  by code_simp

lemma example_rounded_products:
  "d_round (d_mul (decimal 1005 3) (d_of_int 100)) = d_of_int 100
   \<and> d_round (d_mul (decimal 1115 3) (d_of_int 100)) = d_of_int 112
   \<and> d_round (d_mul (decimal 285 3) (d_of_int 100)) = d_of_int 28
   \<and> d_round (d_mul (decimal 25 1) (d_of_int 100)) = d_of_int 250"
  by code_simp

section \<open>Properties of the game analyzer\<close>

lemma analyze_loop_grows:
  "analyze_loop F R net i ms chess evals lines = Inr (evals', lines') \<Longrightarrow>
   \<exists>new newl. evals' = evals @ new \<and> lines' = lines @ newl \<and> length new \<le> length ms
      \<and> length newl \<le> length new
      \<and> list_all (\<lambda>r. evaluation_me r
                        = f_round F (f_mul F (to_number F (evaluationFloat r)) (f_of_int F 100))) new"
proof (induction ms arbitrary: i chess evals lines)
  case Nil
  then show ?case by simp
next
  case (Cons m ms)
  from Cons.prems obtain chess1 where c1: "Chess_move_san R chess m = Some chess1"
    by (auto split: option.splits)
  let ?a = "fst (analyzePosition (net i (chess_fen R (position chess1))) 0)"
  show ?case
  proof (cases "\<exists>a. ?a = Inr a \<and> success a")
    case True
    then obtain a where a: "?a = Inr a" "success a" by blast
    define l where "l = (case moveLineOut i m a of None \<Rightarrow> [] | Some x \<Rightarrow> [x])"
    have ll: "length l \<le> 1" by (simp add: l_def split: option.splits)
    have "(case moveLineOut i m a of None \<Rightarrow> lines | Some x \<Rightarrow> lines @ [x]) = lines @ l"
      by (simp add: l_def split: option.splits)
    with Cons.prems c1 a have "analyze_loop F R net (i + 1) ms chess1
        (evals @ [moveEvaluation F i m a]) (lines @ l) = Inr (evals', lines')"
      by (simp add: Let_def)
    from Cons.IH [OF this] obtain new newl where n:
      "evals' = (evals @ [moveEvaluation F i m a]) @ new" "lines' = (lines @ l) @ newl"
      "length new \<le> length ms" "length newl \<le> length new"
      "list_all (\<lambda>r. evaluation_me r
                      = f_round F (f_mul F (to_number F (evaluationFloat r)) (f_of_int F 100))) new"
      by blast
    have "evaluation_me (moveEvaluation F i m a)
        = f_round F (f_mul F (to_number F (evaluationFloat (moveEvaluation F i m a))) (f_of_int F 100))"
      by (simp add: moveEvaluation_def)
    with n ll show ?thesis
      by (intro exI [of _ "moveEvaluation F i m a # new"] exI [of _ "l @ newl"]) simp
  next
    case False
    with Cons.prems c1 have "analyze_loop F R net (i + 1) ms chess1 evals lines = Inr (evals', lines')"
      by (auto simp: Let_def split: sum.splits if_splits)
    from Cons.IH [OF this] show ?thesis
      by (auto intro: le_SucI)
  qed
qed

lemma validate_moves_take:
  "validate_moves R chess ms = ms \<Longrightarrow> validate_moves R chess (take k ms) = take k ms"
proof (induction ms arbitrary: chess k)
  case Nil
  then show ?case by simp
next
  case (Cons m ms)
  then show ?case
    by (cases k) (auto split: option.splits)
qed

lemma validate_moves_idem:
  "validate_moves R chess (validate_moves R chess ms) = validate_moves R chess ms"
  by (induction ms arbitrary: chess) (auto split: option.splits)

lemma validate_moves_play_all:
  "(validate_moves R chess ms = ms) = (play_all R chess ms \<noteq> None)"
  by (induction ms arbitrary: chess) (auto split: option.splits)

lemma analyze_loop_returns:
  "validate_moves R chess ms = ms \<Longrightarrow> \<exists>x. analyze_loop F R net i ms chess evals lines = Inr x"
proof (induction ms arbitrary: i chess evals lines)
  case Nil
  then show ?case by simp
next
  case (Cons m ms)
  from Cons.prems obtain chess1 where c1: "Chess_move_san R chess m = Some chess1"
    and v: "validate_moves R chess1 ms = ms"
    by (auto split: option.splits)
  show ?case using c1 Cons.IH [OF v]
    by (simp add: Let_def split: sum.splits)
qed

lemma analyze_loop_all_fail:
  assumes "\<forall>i fen. \<exists>e. fst (analyzePosition (net i fen) 0) = Inl e"
  shows "analyze_loop F R net i ms chess evals lines = Inr (evals', lines') \<Longrightarrow> evals' = evals"
proof (induction ms arbitrary: i chess)
  case Nil
  then show ?case by simp
next
  case (Cons m ms)
  from Cons.prems obtain chess1 where c1: "Chess_move_san R chess m = Some chess1"
    by (auto split: option.splits)
  from assms obtain e where "fst (analyzePosition (net i (chess_fen R (position chess1))) 0) = Inl e"
    by blast
  with Cons.prems c1 have "analyze_loop F R net (i + 1) ms chess1 evals lines = Inr (evals', lines')"
    by (simp add: Let_def)
  then show ?case by (rule Cons.IH)
qed

lemma analyzeCompleteGame_Inr:
  assumes "analyzeCompleteGame F R net pgn_text gid = Inr res"
  obtains evals lines where
    "analyze_loop F R net 0 (take (min (length (gameMoves R pgn_text)) 30) (gameMoves R pgn_text))
       (Chess_reset R) [] [Game_line (gameName pgn_text)] = Inr (evals, lines)"
    "res = \<lparr>gameId = gid, pgn = pgn_text, moveEvaluations = evals,
            rawOutput = lines @ [Empty_line,
              if hasBlunders F evals then Major_drops_detected else No_major_drops_detected],
            totalMoves = length (gameMoves R pgn_text)\<rparr>"
  using assms
  by (auto simp: analyzeCompleteGame_def Let_def split: sum.splits)

text \<open>Runs of the analyzer on the example rules and networks, in double precision.\<close>

lemma example_run_up:
  "analyzeCompleteGame double_ops example_rules net_up example_pgn ''game-1'' =
     Inr \<lparr>gameId = ''game-1'', pgn = example_pgn,
          moveEvaluations =
            [\<lparr>moveNumber = 1, move_me = ''e4     |'', evaluation_me = d_of_int 0,
              evaluationFloat = Number (d_int_div 0 4),
              mate_me = None, bestMove = ''bestmove e2e4 ponder e7e5''\<rparr>,
             \<lparr>moveNumber = 1, move_me = ''e5     |'', evaluation_me = d_of_int 25,
              evaluationFloat = Number (d_int_div 1 4),
              mate_me = None, bestMove = ''bestmove e2e4 ponder e7e5''\<rparr>,
             \<lparr>moveNumber = 2, move_me = ''Nf3    |'', evaluation_me = d_of_int 50,
              evaluationFloat = Number (d_int_div 2 4),
              mate_me = None, bestMove = ''bestmove e2e4 ponder e7e5''\<rparr>,
             \<lparr>moveNumber = 2, move_me = ''Nc6    |'', evaluation_me = d_of_int 75,
              evaluationFloat = Number (d_int_div 3 4),
              mate_me = None, bestMove = ''bestmove e2e4 ponder e7e5''\<rparr>,
             \<lparr>moveNumber = 3, move_me = ''Bb5    |'', evaluation_me = d_of_int 100,
              evaluationFloat = Number (d_int_div 4 4),
              mate_me = None, bestMove = ''bestmove e2e4 ponder e7e5''\<rparr>],
          rawOutput =
            [Game_line ''Chess Game'',
             Move_line 1 ''e4     '' (Number_text (d_int_div 0 4)),
             Move_line 2 ''e5     '' (Number_text (d_int_div 1 4)),
             Move_line 3 ''Nf3    '' (Number_text (d_int_div 2 4)),
             Move_line 4 ''Nc6    '' (Number_text (d_int_div 3 4)),
             Move_line 5 ''Bb5    '' (Number_text (d_int_div 4 4)),
             Empty_line, No_major_drops_detected],
          totalMoves = 5\<rparr>"
  by code_simp

lemma example_run_down:
  "analyzeCompleteGame double_ops example_rules net_down example_pgn ''game-2'' =
     Inr \<lparr>gameId = ''game-2'', pgn = example_pgn, moveEvaluations = [],
          rawOutput = [Game_line ''Chess Game'', Empty_line, No_major_drops_detected],
          totalMoves = 5\<rparr>"
  by code_simp

lemma example_run_unparsed:
  "analyzeCompleteGame double_ops example_rules net_up ''no moves here'' ''game-3'' =
     Inr \<lparr>gameId = ''game-3'', pgn = ''no moves here'', moveEvaluations = [],
          rawOutput = [Game_line ''Chess Game'', Empty_line, No_major_drops_detected],
          totalMoves = 0\<rparr>"
  by code_simp

lemma example_run_drop:
  "map_sum id (\<lambda>res. (map move_me (moveEvaluations res), map evaluationFloat (moveEvaluations res),
                       map bestMove (moveEvaluations res), last (rawOutput res)))
     (analyzeCompleteGame double_ops example_rules net_drop example_pgn ''game-4'') =
   Inr ([''e4     |'', ''e5     |'', ''Nf3    |'', ''Nc6    |'', ''Bb5    |''],
        [Number (decimal 15 1), Number (decimal (- 15) 1), Number (decimal (- 15) 1),
         Number (decimal (- 15) 1), Number (decimal (- 15) 1)],
        [''bestmove e7e5 ponder g1f3'', ''bestmove g1f3 ponder b8c6'', ''bestmove g1f3 ponder b8c6'',
         ''bestmove g1f3 ponder b8c6'', ''bestmove g1f3 ponder b8c6''],
        Major_drops_detected)"
  by code_simp

lemma example_run_mate:
  "map_sum id (\<lambda>res. (map evaluationFloat (moveEvaluations res), map mate_me (moveEvaluations res),
                       map (\<lambda>r. spec_normalize (spec_record_score r)) (moveEvaluations res),
                       last (rawOutput res)))
     (analyzeCompleteGame double_ops example_rules net_mate example_pgn ''game-5'') =
   Inr ([Number (decimal 3 1), Null, Null, Null, Null], [None, Some 3, Some 3, Some 3, Some 3],
        [30, 10000, 10000, 10000, 10000], No_major_drops_detected)"
  by code_simp

lemma example_run_tenths:
  "map_sum id (\<lambda>res. (map evaluationFloat (moveEvaluations res), last (rawOutput res)))
     (analyzeCompleteGame double_ops example_rules net_tenths ''1. e4 e5'' ''game-8'') =
   Inr ([Number (decimal 12 1), Number (decimal 22 1)], Major_drops_detected)"
  by code_simp

lemma example_run_tenths_low:
  "map_sum id (\<lambda>res. (map evaluationFloat (moveEvaluations res), last (rawOutput res)))
     (analyzeCompleteGame double_ops example_rules net_tenths_low ''1. e4 e5'' ''game-9'') =
   Inr ([Number (decimal 3 1), Number (decimal 13 1)], No_major_drops_detected)"
  by code_simp

lemma example_run_thousandths:
  "map_sum id (\<lambda>res. (map evaluationFloat (moveEvaluations res), map evaluation_me (moveEvaluations res)))
     (analyzeCompleteGame double_ops example_rules net_thousandths ''1. e4 e5 2. Nf3 Nc6'' ''game-10'') =
   Inr ([Number (decimal 1005 3), Number (decimal 1115 3), Number (decimal 285 3), Number (decimal 25 1)],
        [d_of_int 100, d_of_int 112, d_of_int 28, d_of_int 250])"
  by code_simp

text \<open>
  A successful body with the evaluation \<^verbatim>\<open>null\<close> and no mate leaves a record, with the
  evaluation 0, and no move line: the transcript of the five records has four move lines.
\<close>

lemma example_run_null:
  "map_sum id (\<lambda>res. (map evaluationFloat (moveEvaluations res), map evaluation_me (moveEvaluations res),
                       map line_ply (rawOutput res)))
     (analyzeCompleteGame double_ops example_rules net_null example_pgn ''game-11'') =
   Inr ([Number (decimal 2 1), Null, Number (decimal 2 1), Number (decimal 2 1), Number (decimal 2 1)],
        [d_of_int 20, d_of_int 0, d_of_int 20, d_of_int 20, d_of_int 20],
        [None, Some 1, Some 3, Some 4, Some 5, None, None])"
  by code_simp

lemma hasBlunders_iff:
  "hasBlunders F evals =
     (\<exists>k. Suc k < length evals \<and>
          f_gt F (f_abs F (f_sub F (to_number F (evaluationFloat (evals ! Suc k)))
                                   (to_number F (evaluationFloat (evals ! k)))))
                 (f_of_int F 1))"
proof (induction F evals rule: hasBlunders.induct)
  case (1 F prev_rec curr_rec rest)
  let ?far = "\<lambda>xs k. f_gt F (f_abs F (f_sub F (to_number F (evaluationFloat (xs ! Suc k)))
                                   (to_number F (evaluationFloat (xs ! k)))))
                 (f_of_int F 1)"
  show ?case
  proof (cases "?far (prev_rec # curr_rec # rest) 0")
    case True
    then have "Suc 0 < length (prev_rec # curr_rec # rest) \<and> ?far (prev_rec # curr_rec # rest) 0"
      by simp
    then have "\<exists>k. Suc k < length (prev_rec # curr_rec # rest) \<and> ?far (prev_rec # curr_rec # rest) k"
      by (rule exI)
    with True show ?thesis by simp
  next
    case False
    have "(\<exists>k. Suc k < length (prev_rec # curr_rec # rest) \<and> ?far (prev_rec # curr_rec # rest) k)
      = (\<exists>k. Suc k < length (curr_rec # rest) \<and> ?far (curr_rec # rest) k)"
      (is "?L = ?R")
    proof
      assume ?L
      then obtain k where k: "Suc k < length (prev_rec # curr_rec # rest)"
        "?far (prev_rec # curr_rec # rest) k"
        by blast
      with False obtain j where "k = Suc j" by (cases k) auto
      with k show ?R by auto
    next
      assume ?R
      then obtain k where "Suc k < length (curr_rec # rest)" "?far (curr_rec # rest) k"
        by blast
      then have "Suc (Suc k) < length (prev_rec # curr_rec # rest)
          \<and> ?far (prev_rec # curr_rec # rest) (Suc k)"
        by simp
      then show ?L by (rule exI)
    qed
    with False 1 show ?thesis by simp
  qed
qed simp_all

lemma hasBlunders_reads_evaluationFloat:
  assumes "map evaluationFloat evals = map evaluationFloat evals'"
  shows "hasBlunders F evals = hasBlunders F evals'"
proof -
  from assms have len: "length evals = length evals'" by (rule map_eq_imp_length_eq)
  have nth: "evaluationFloat (evals ! k) = evaluationFloat (evals' ! k)" if "k < length evals" for k
  proof -
    from that have "evaluationFloat (evals ! k) = map evaluationFloat evals ! k" by simp
    also have "\<dots> = map evaluationFloat evals' ! k" using assms by simp
    also have "\<dots> = evaluationFloat (evals' ! k)" using that len by simp
    finally show ?thesis .
  qed
  show ?thesis
    unfolding hasBlunders_iff len [symmetric]
    using nth by (metis Suc_lessD)
qed

text \<open>
  C10. Every result the remote game analyzer returns has \<^verbatim>\<open>totalMoves\<close> equal to the
  number of the extracted moves (the history parsed by chess.js, or the moves of the
  fallback); at most \<open>min totalMoves 30\<close> evaluation records; and in every record
  \<^verbatim>\<open>evaluation\<close> is \<^verbatim>\<open>Math.round\<close> of the floating-point product of \<^verbatim>\<open>evaluationFloat\<close>
  and 100 (an \<^verbatim>\<open>evaluationFloat\<close> that is \<^verbatim>\<open>null\<close> counting as 0, as it does in a
  product). This holds in every arithmetic; in double precision the product may be taken
  in either order.
\<close>

theorem analyzeCompleteGame_result_invariants:
  assumes "analyzeCompleteGame F R net pgn_text gid = Inr res"
  shows "totalMoves res = length (gameMoves R pgn_text)
       \<and> length (moveEvaluations res) \<le> min (totalMoves res) 30
       \<and> list_all (\<lambda>r. evaluation_me r
                         = f_round F (f_mul F (to_number F (evaluationFloat r)) (f_of_int F 100)))
           (moveEvaluations res)
       \<and> (\<forall>x. f_mul double_ops x (f_of_int double_ops 100) = f_mul double_ops (f_of_int double_ops 100) x)"
proof -
  from assms obtain evals lines where
    loop: "analyze_loop F R net 0 (take (min (length (gameMoves R pgn_text)) 30) (gameMoves R pgn_text))
       (Chess_reset R) [] [Game_line (gameName pgn_text)] = Inr (evals, lines)"
    and res: "res = \<lparr>gameId = gid, pgn = pgn_text, moveEvaluations = evals,
            rawOutput = lines @ [Empty_line,
              if hasBlunders F evals then Major_drops_detected else No_major_drops_detected],
            totalMoves = length (gameMoves R pgn_text)\<rparr>"
    by (rule analyzeCompleteGame_Inr)
  from analyze_loop_grows [OF loop] obtain new newl where
    n: "evals = [] @ new" "length new \<le> length (take (min (length (gameMoves R pgn_text)) 30) (gameMoves R pgn_text))"
       "list_all (\<lambda>r. evaluation_me r
                       = f_round F (f_mul F (to_number F (evaluationFloat r)) (f_of_int F 100))) new"
    by blast
  have "\<forall>x. f_mul double_ops x (f_of_int double_ops 100) = f_mul double_ops (f_of_int double_ops 100) x"
    by (simp add: double_ops_def d_mul_commute)
  with res n show ?thesis by simp
qed

text \<open>
  The theorem on the game of 32 plies of the example rules, every request succeeding at
  its second attempt: 32 moves in total, 30 records, the last three of them with the
  move numbers 14, 15, 15 and the evaluation 20 for 0.2. And on the game of four plies
  with the evaluations 1.005, 1.115, 0.285 and 2.5, whose records hold 100, 112, 28 and
  250.
\<close>

lemma example_run_knights:
  "map_sum id (\<lambda>res. (totalMoves res, length (moveEvaluations res),
       map moveNumber (drop 27 (moveEvaluations res)), map evaluation_me (drop 27 (moveEvaluations res)),
       map line_ply (drop 27 (rawOutput res))))
     (analyzeCompleteGame double_ops example_rules net_flat knights_pgn ''game-7'')
   = Inr (32, 30, [14, 15, 15], [d_of_int 20, d_of_int 20, d_of_int 20],
          [Some 27, Some 28, Some 29, Some 30, None, None])"
  by code_simp

theorem analyzeCompleteGame_result_invariants_witness:
  "(\<exists>res. analyzeCompleteGame double_ops example_rules net_flat knights_pgn ''game-7'' = Inr res
      \<and> totalMoves res = length (gameMoves example_rules knights_pgn)
      \<and> totalMoves res = 32
      \<and> length (moveEvaluations res) = 30
      \<and> length (moveEvaluations res) \<le> min (totalMoves res) 30
      \<and> list_all (\<lambda>r. evaluation_me r
                        = d_round (d_mul (to_number double_ops (evaluationFloat r)) (d_of_int 100)))
          (moveEvaluations res))
   \<and> (\<exists>res. analyzeCompleteGame double_ops example_rules net_thousandths ''1. e4 e5 2. Nf3 Nc6''
              ''game-10'' = Inr res
      \<and> map evaluationFloat (moveEvaluations res)
          = [Number (decimal 1005 3), Number (decimal 1115 3), Number (decimal 285 3),
             Number (decimal 25 1)]
      \<and> map evaluation_me (moveEvaluations res) = [d_of_int 100, d_of_int 112, d_of_int 28, d_of_int 250]
      \<and> list_all (\<lambda>r. evaluation_me r
                        = d_round (d_mul (to_number double_ops (evaluationFloat r)) (d_of_int 100)))
          (moveEvaluations res))"
proof
  from example_run_knights obtain res where
    r: "analyzeCompleteGame double_ops example_rules net_flat knights_pgn ''game-7'' = Inr res"
    and t: "totalMoves res = 32" and l: "length (moveEvaluations res) = 30"
    by (cases "analyzeCompleteGame double_ops example_rules net_flat knights_pgn ''game-7''") auto
  from analyzeCompleteGame_result_invariants [OF r]
  have a: "totalMoves res = length (gameMoves example_rules knights_pgn)"
    and b: "length (moveEvaluations res) \<le> min (totalMoves res) 30"
    and "list_all (\<lambda>r. evaluation_me r
          = f_round double_ops (f_mul double_ops (to_number double_ops (evaluationFloat r))
              (f_of_int double_ops 100))) (moveEvaluations res)"
    by blast+
  then have c: "list_all (\<lambda>r. evaluation_me r
                        = d_round (d_mul (to_number double_ops (evaluationFloat r)) (d_of_int 100)))
          (moveEvaluations res)"
    by (simp add: double_ops_def)
  from r a t l b c
  have "analyzeCompleteGame double_ops example_rules net_flat knights_pgn ''game-7'' = Inr res
      \<and> totalMoves res = length (gameMoves example_rules knights_pgn)
      \<and> totalMoves res = 32
      \<and> length (moveEvaluations res) = 30
      \<and> length (moveEvaluations res) \<le> min (totalMoves res) 30
      \<and> list_all (\<lambda>r. evaluation_me r
                        = d_round (d_mul (to_number double_ops (evaluationFloat r)) (d_of_int 100)))
          (moveEvaluations res)"
    by (intro conjI)
  then show "\<exists>res. analyzeCompleteGame double_ops example_rules net_flat knights_pgn ''game-7'' = Inr res
      \<and> totalMoves res = length (gameMoves example_rules knights_pgn)
      \<and> totalMoves res = 32
      \<and> length (moveEvaluations res) = 30
      \<and> length (moveEvaluations res) \<le> min (totalMoves res) 30
      \<and> list_all (\<lambda>r. evaluation_me r
                        = d_round (d_mul (to_number double_ops (evaluationFloat r)) (d_of_int 100)))
          (moveEvaluations res)"
    by (rule exI)
next
  from example_run_thousandths obtain res where
    r: "analyzeCompleteGame double_ops example_rules net_thousandths ''1. e4 e5 2. Nf3 Nc6''
          ''game-10'' = Inr res"
    and f: "map evaluationFloat (moveEvaluations res)
          = [Number (decimal 1005 3), Number (decimal 1115 3), Number (decimal 285 3),
             Number (decimal 25 1)]"
    and e: "map evaluation_me (moveEvaluations res) = [d_of_int 100, d_of_int 112, d_of_int 28, d_of_int 250]"
    by (cases "analyzeCompleteGame double_ops example_rules net_thousandths ''1. e4 e5 2. Nf3 Nc6''
          ''game-10''") auto
  from analyzeCompleteGame_result_invariants [OF r]
  have "list_all (\<lambda>r. evaluation_me r
          = f_round double_ops (f_mul double_ops (to_number double_ops (evaluationFloat r))
              (f_of_int double_ops 100))) (moveEvaluations res)"
    by blast
  then have c: "list_all (\<lambda>r. evaluation_me r
                        = d_round (d_mul (to_number double_ops (evaluationFloat r)) (d_of_int 100)))
          (moveEvaluations res)"
    by (simp add: double_ops_def)
  from r f e c
  have "analyzeCompleteGame double_ops example_rules net_thousandths ''1. e4 e5 2. Nf3 Nc6''
              ''game-10'' = Inr res
      \<and> map evaluationFloat (moveEvaluations res)
          = [Number (decimal 1005 3), Number (decimal 1115 3), Number (decimal 285 3),
             Number (decimal 25 1)]
      \<and> map evaluation_me (moveEvaluations res) = [d_of_int 100, d_of_int 112, d_of_int 28, d_of_int 250]
      \<and> list_all (\<lambda>r. evaluation_me r
                        = d_round (d_mul (to_number double_ops (evaluationFloat r)) (d_of_int 100)))
          (moveEvaluations res)"
    by (intro conjI)
  then show "\<exists>res. analyzeCompleteGame double_ops example_rules net_thousandths ''1. e4 e5 2. Nf3 Nc6''
              ''game-10'' = Inr res
      \<and> map evaluationFloat (moveEvaluations res)
          = [Number (decimal 1005 3), Number (decimal 1115 3), Number (decimal 285 3),
             Number (decimal 25 1)]
      \<and> map evaluation_me (moveEvaluations res) = [d_of_int 100, d_of_int 112, d_of_int 28, d_of_int 250]
      \<and> list_all (\<lambda>r. evaluation_me r
                        = d_round (d_mul (to_number double_ops (evaluationFloat r)) (d_of_int 100)))
          (moveEvaluations res)"
    by (rule exI)
qed

text \<open>
  C2, as the code has it. A result with no evaluation record has the transcript of a
  game without drops: the line of the game, the empty line, and the summary
  \<^verbatim>\<open>No major evaluation drops detected.\<close>; no reason is given. That is the result when
  every request fails, and when no move was extracted. Only the empty list of records
  (and \<^verbatim>\<open>totalMoves\<close>) tells the caller that nothing was evaluated.
\<close>

theorem zero_evaluated_moves_summary:
  assumes "analyzeCompleteGame F R net pgn_text gid = Inr res"
  shows "(moveEvaluations res = [] \<longrightarrow>
            rawOutput res = [Game_line (gameName pgn_text), Empty_line, No_major_drops_detected])
       \<and> ((\<forall>i fen. \<exists>e. fst (analyzePosition (net i fen) 0) = Inl e) \<longrightarrow> moveEvaluations res = [])
       \<and> (gameMoves R pgn_text = [] \<longrightarrow> moveEvaluations res = [])"
proof -
  from assms obtain evals lines where
    loop: "analyze_loop F R net 0 (take (min (length (gameMoves R pgn_text)) 30) (gameMoves R pgn_text))
       (Chess_reset R) [] [Game_line (gameName pgn_text)] = Inr (evals, lines)"
    and res: "res = \<lparr>gameId = gid, pgn = pgn_text, moveEvaluations = evals,
            rawOutput = lines @ [Empty_line,
              if hasBlunders F evals then Major_drops_detected else No_major_drops_detected],
            totalMoves = length (gameMoves R pgn_text)\<rparr>"
    by (rule analyzeCompleteGame_Inr)
  from analyze_loop_grows [OF loop] obtain new newl where
    n: "evals = [] @ new" "lines = [Game_line (gameName pgn_text)] @ newl" "length newl \<le> length new"
       "length new \<le> length (take (min (length (gameMoves R pgn_text)) 30) (gameMoves R pgn_text))"
    by blast
  have a: "moveEvaluations res = [] \<longrightarrow>
            rawOutput res = [Game_line (gameName pgn_text), Empty_line, No_major_drops_detected]"
    using res n by auto
  have b: "(\<forall>i fen. \<exists>e. fst (analyzePosition (net i fen) 0) = Inl e) \<longrightarrow> moveEvaluations res = []"
  proof
    assume "\<forall>i fen. \<exists>e. fst (analyzePosition (net i fen) 0) = Inl e"
    from analyze_loop_all_fail [OF this loop] res show "moveEvaluations res = []" by simp
  qed
  have c: "gameMoves R pgn_text = [] \<longrightarrow> moveEvaluations res = []"
    using res n by auto
  from a b c show ?thesis by blast
qed

theorem zero_evaluated_moves_summary_witness:
  "(\<exists>res. analyzeCompleteGame double_ops example_rules net_down example_pgn ''game-2'' = Inr res
      \<and> (\<exists>e. fst (analyzePosition (net_down 0 []) 0) = Inl e)
      \<and> moveEvaluations res = []
      \<and> rawOutput res = [Game_line (gameName example_pgn), Empty_line, No_major_drops_detected])"
proof -
  have down: "\<forall>i fen. \<exists>e. fst (analyzePosition (net_down i fen) 0) = Inl e"
    by (simp add: analyzePosition_cases net_down_def)
  from zero_evaluated_moves_summary [OF example_run_down] down
  show ?thesis by (simp add: example_run_down)
qed

text \<open>
  C2 as stated fails: with the network down, and with a text from which no move is
  extracted, the summary is the one of the game whose five evaluations show no drop.
\<close>

theorem zero_evaluated_moves_counterexample:
  "map_sum id (\<lambda>res. (length (moveEvaluations res), last (rawOutput res)))
     (analyzeCompleteGame double_ops example_rules net_down example_pgn ''game-2'')
     = Inr (0, No_major_drops_detected)
   \<and> map_sum id (\<lambda>res. (length (moveEvaluations res), last (rawOutput res)))
     (analyzeCompleteGame double_ops example_rules net_up ''no moves here'' ''game-3'')
     = Inr (0, No_major_drops_detected)
   \<and> map_sum id (\<lambda>res. (length (moveEvaluations res), last (rawOutput res)))
     (analyzeCompleteGame double_ops example_rules net_up example_pgn ''game-1'')
     = Inr (5, No_major_drops_detected)"
  by (simp add: example_run_down example_run_unparsed example_run_up)

section \<open>Properties of the earlier revision of the game analyzer\<close>

lemma analyze_loop_rev1_grows:
  "analyze_loop_rev1 F R net i ms chess evals lines = Inr (evals', lines') \<Longrightarrow>
   \<exists>new newl. evals' = evals @ new \<and> lines' = lines @ newl \<and> length new \<le> length ms
      \<and> length newl \<le> length new"
proof (induction ms arbitrary: i chess evals lines)
  case Nil
  then show ?case by simp
next
  case (Cons m ms)
  from Cons.prems obtain chess1 where c1: "Chess_move_san R chess m = Some chess1"
    by (auto split: option.splits)
  let ?a = "analyzePosition_rev1 (net i (chess_fen R (position chess1)))"
  show ?case
  proof (cases "\<exists>a. ?a = Inr a \<and> success a")
    case True
    then obtain a where a: "?a = Inr a" "success a" by blast
    define l where "l = (case moveLineOut i m a of None \<Rightarrow> [] | Some x \<Rightarrow> [x])"
    have ll: "length l \<le> 1" by (simp add: l_def split: option.splits)
    have "(case moveLineOut i m a of None \<Rightarrow> lines | Some x \<Rightarrow> lines @ [x]) = lines @ l"
      by (simp add: l_def split: option.splits)
    with Cons.prems c1 a have "analyze_loop_rev1 F R net (i + 1) ms chess1
        (evals @ [moveEvaluation F i m a]) (lines @ l) = Inr (evals', lines')"
      by (simp add: Let_def)
    from Cons.IH [OF this] obtain new newl where n:
      "evals' = (evals @ [moveEvaluation F i m a]) @ new" "lines' = (lines @ l) @ newl"
      "length new \<le> length ms" "length newl \<le> length new"
      by blast
    with ll show ?thesis
      by (intro exI [of _ "moveEvaluation F i m a # new"] exI [of _ "l @ newl"]) simp
  next
    case False
    with Cons.prems c1 have "analyze_loop_rev1 F R net (i + 1) ms chess1 evals lines = Inr (evals', lines')"
      by (auto simp: Let_def split: sum.splits if_splits)
    from Cons.IH [OF this] show ?thesis
      by (auto intro: le_SucI)
  qed
qed

text \<open>
  The earlier revision agrees with the later one on the points above: a result without
  evaluation records carries the summary of a game without drops, and the verdict is the
  same scan of \<^verbatim>\<open>evaluationFloat\<close> (the records are built by the same code). It returns
  a result only for a PGN that chess.js parses.
\<close>

lemma analyzeCompleteGame_rev1_result:
  assumes "analyzeCompleteGame_rev1 F R net pgn_text gid = Inr res"
  shows "(moveEvaluations res = [] \<longrightarrow>
            rawOutput res = [Game_line (gameName pgn_text), Empty_line, No_major_drops_detected])
       \<and> last (rawOutput res) =
            (if hasBlunders F (moveEvaluations res) then Major_drops_detected else No_major_drops_detected)
       \<and> chess_loadPgn R pgn_text \<noteq> None"
proof -
  from assms obtain moves evals lines where
    loop: "analyze_loop_rev1 F R net 0 moves (Chess_reset R) [] [Game_line (gameName pgn_text)]
             = Inr (evals, lines)"
    and res: "res = \<lparr>gameId = gid, pgn = pgn_text, moveEvaluations = evals,
            rawOutput = lines @ [Empty_line,
              if hasBlunders F evals then Major_drops_detected else No_major_drops_detected],
            totalMoves = length moves\<rparr>"
    and ld: "chess_loadPgn R pgn_text = Some moves"
    by (auto simp: analyzeCompleteGame_rev1_def split: option.splits sum.splits)
  from analyze_loop_rev1_grows [OF loop] obtain new newl where
    "evals = [] @ new" "lines = [Game_line (gameName pgn_text)] @ newl" "length newl \<le> length new"
    by blast
  with res ld show ?thesis by auto
qed

section \<open>Properties of the blunder rule\<close>

lemma analyze_game2_loop_append:
  "analyze_game2_loop B score_cp engine n board (ms @ ms') drops =
     (case analyze_game2_loop B score_cp engine n board ms drops of
        Inl e \<Rightarrow> Inl e
      | Inr d \<Rightarrow> analyze_game2_loop B score_cp engine (n + 2 * length ms)
                  (foldl (board_push B) board ms) ms' d)"
proof (induction ms arbitrary: n board drops)
  case Nil
  show ?case by simp
next
  case (Cons m ms)
  show ?case
  proof (cases "best_move_of (engine n board)")
    case (Inl e)
    then show ?thesis by (simp add: Let_def)
  next
    case (Inr best)
    then show ?thesis
      by (auto simp: Let_def Cons.IH split: sum.splits)
  qed
qed

lemma analyze_game_loop_append:
  "analyze_game_loop F B engine n board (ms @ ms') drops =
     (case analyze_game_loop F B engine n board ms drops of
        Inl e \<Rightarrow> Inl e
      | Inr d \<Rightarrow> analyze_game_loop F B engine (n + 2 * length ms)
                  (foldl (board_push B) board ms) ms' d)"
proof (induction ms arbitrary: n board drops)
  case Nil
  show ?case by simp
next
  case (Cons m ms)
  show ?case
  proof (cases "best_move_of (engine n board)")
    case (Inl e)
    then show ?thesis by (simp add: Let_def)
  next
    case (Inr best)
    then show ?thesis
      by (auto simp: Let_def Cons.IH split: sum.splits)
  qed
qed

lemma analyze_game2_last:
  "analyze_game2 B score_cp engine board (ms @ [pm]) =
     (case analyze_game2 B score_cp engine board ms of
        Inl e \<Rightarrow> Inl e
      | Inr drops \<Rightarrow>
          (let n = 2 * length ms;
               b = foldl (board_push B) board ms;
               b1 = board_push B b pm
           in (case best_move_of (engine n b) of
                 Inl e \<Rightarrow> Inl e
               | Inr best \<Rightarrow>
                   Inr (case (score_cp (info_score (engine n b)),
                              score_cp (info_score (engine (n + 1) b1))) of
                          (Some sb, Some sa) \<Rightarrow>
                            if \<bar>sb - sa\<bar> \<ge> 200 \<and> Some pm \<noteq> best
                            then drops @ [(board_fullmove_number B b1, pm, best, sb, sa)]
                            else drops
                        | _ \<Rightarrow> drops))))"
proof -
  have "analyze_game2_loop B score_cp engine 0 board (ms @ [pm]) [] =
     (case analyze_game2_loop B score_cp engine 0 board ms [] of
        Inl e \<Rightarrow> Inl e
      | Inr d \<Rightarrow> analyze_game2_loop B score_cp engine (0 + 2 * length ms)
                  (foldl (board_push B) board ms) [pm] d)"
    by (rule analyze_game2_loop_append)
  then show ?thesis
    unfolding analyze_game2_def
    by (auto simp: Let_def split: sum.splits option.splits)
qed

lemma analyze_game_last:
  "analyze_game F B engine board (ms @ [pm]) =
     (case analyze_game F B engine board ms of
        Inl e \<Rightarrow> Inl e
      | Inr drops \<Rightarrow>
          (let n = 2 * length ms;
               b = foldl (board_push B) board ms;
               b1 = board_push B b pm;
               sb = score_pawns F (info_score (engine n b));
               sa = score_pawns F (info_score (engine (n + 1) b1))
           in (case best_move_of (engine n b) of
                 Inl e \<Rightarrow> Inl e
               | Inr best \<Rightarrow>
                   Inr (if f_ge F (f_abs F (f_sub F sb sa)) (f_of_int F 2) \<and> Some pm \<noteq> best
                        then drops @
                          [(board_fullmove_number B b1,
                            (case board_san B b pm of Some s \<Rightarrow> s | None \<Rightarrow> move_str B pm),
                            (case best of
                               None \<Rightarrow> ''N/A''
                             | Some bm \<Rightarrow>
                                 if board_is_legal B b bm
                                 then (case board_san B b bm of Some s \<Rightarrow> s | None \<Rightarrow> ''N/A'')
                                 else ''N/A''),
                            sb, sa)]
                        else drops))))"
proof -
  have "analyze_game_loop F B engine 0 board (ms @ [pm]) [] =
     (case analyze_game_loop F B engine 0 board ms [] of
        Inl e \<Rightarrow> Inl e
      | Inr d \<Rightarrow> analyze_game_loop F B engine (0 + 2 * length ms)
                  (foldl (board_push B) board ms) [pm] d)"
    by (rule analyze_game_loop_append)
  then show ?thesis
    unfolding analyze_game_def
    by (auto simp: Let_def split: sum.splits option.splits)
qed

lemma analyzeCompleteGame_summary:
  assumes "analyzeCompleteGame F R net pgn_text gid = Inr res"
  shows "last (rawOutput res) =
           (if hasBlunders F (moveEvaluations res) then Major_drops_detected else No_major_drops_detected)"
proof -
  from assms obtain evals lines where
    "res = \<lparr>gameId = gid, pgn = pgn_text, moveEvaluations = evals,
            rawOutput = lines @ [Empty_line,
              if hasBlunders F evals then Major_drops_detected else No_major_drops_detected],
            totalMoves = length (gameMoves R pgn_text)\<rparr>"
    by (rule analyzeCompleteGame_Inr)
  then show ?thesis by simp
qed

text \<open>
  C1, as the code has it. The remote analyzer, in either revision, classifies no single
  move and has no configured threshold: the summary of a run reports a drop exactly when, for two
  consecutive records, \<^verbatim>\<open>Math.abs(curr.evaluationFloat - prev.evaluationFloat) > 1.0\<close>
  holds in floating point, whatever the moves played and suggested. The Python analyzers
  record the last move of any analyzed sequence as a drop exactly when the move played
  differs from the engine's best move and the difference of the scores reaches the fixed
  threshold: in the second script both centipawn scores exist and their absolute
  difference is at least 200; in the first script the floating-point
  \<^verbatim>\<open>abs(score_before - score_after)\<close> of the scores in pawns is at least \<open>2.0\<close>. The moves
  before the last are classified as in the analysis of the sequence without it.
\<close>

theorem blunder_rule_as_coded:
  "(analyzeCompleteGame F R net pgn_text gid = Inr res \<longrightarrow>
      last (rawOutput res) =
        (if \<exists>k. Suc k < length (moveEvaluations res) \<and>
                 f_gt F (f_abs F (f_sub F (to_number F (evaluationFloat (moveEvaluations res ! Suc k)))
                                          (to_number F (evaluationFloat (moveEvaluations res ! k)))))
                        (f_of_int F 1)
         then Major_drops_detected else No_major_drops_detected))
   \<and> (analyzeCompleteGame_rev1 F R net' pgn_text gid = Inr res' \<longrightarrow>
      last (rawOutput res') =
        (if \<exists>k. Suc k < length (moveEvaluations res') \<and>
                 f_gt F (f_abs F (f_sub F (to_number F (evaluationFloat (moveEvaluations res' ! Suc k)))
                                          (to_number F (evaluationFloat (moveEvaluations res' ! k)))))
                        (f_of_int F 1)
         then Major_drops_detected else No_major_drops_detected))
   \<and> analyze_game2 B score_cp engine board (ms @ [pm]) =
     (case analyze_game2 B score_cp engine board ms of
        Inl e \<Rightarrow> Inl e
      | Inr drops \<Rightarrow>
          (let n = 2 * length ms;
               b = foldl (board_push B) board ms;
               b1 = board_push B b pm
           in (case best_move_of (engine n b) of
                 Inl e \<Rightarrow> Inl e
               | Inr best \<Rightarrow>
                   Inr (case (score_cp (info_score (engine n b)),
                              score_cp (info_score (engine (n + 1) b1))) of
                          (Some sb, Some sa) \<Rightarrow>
                            if \<bar>sb - sa\<bar> \<ge> 200 \<and> Some pm \<noteq> best
                            then drops @ [(board_fullmove_number B b1, pm, best, sb, sa)]
                            else drops
                        | _ \<Rightarrow> drops))))
   \<and> analyze_game F B engine board (ms @ [pm]) =
     (case analyze_game F B engine board ms of
        Inl e \<Rightarrow> Inl e
      | Inr drops \<Rightarrow>
          (let n = 2 * length ms;
               b = foldl (board_push B) board ms;
               b1 = board_push B b pm;
               sb = score_pawns F (info_score (engine n b));
               sa = score_pawns F (info_score (engine (n + 1) b1))
           in (case best_move_of (engine n b) of
                 Inl e \<Rightarrow> Inl e
               | Inr best \<Rightarrow>
                   Inr (if f_ge F (f_abs F (f_sub F sb sa)) (f_of_int F 2) \<and> Some pm \<noteq> best
                        then drops @
                          [(board_fullmove_number B b1,
                            (case board_san B b pm of Some s \<Rightarrow> s | None \<Rightarrow> move_str B pm),
                            (case best of
                               None \<Rightarrow> ''N/A''
                             | Some bm \<Rightarrow>
                                 if board_is_legal B b bm
                                 then (case board_san B b bm of Some s \<Rightarrow> s | None \<Rightarrow> ''N/A'')
                                 else ''N/A''),
                            sb, sa)]
                        else drops))))"
proof (intro conjI impI)
  assume "analyzeCompleteGame F R net pgn_text gid = Inr res"
  then have "last (rawOutput res) =
           (if hasBlunders F (moveEvaluations res) then Major_drops_detected else No_major_drops_detected)"
    by (rule analyzeCompleteGame_summary)
  then show "last (rawOutput res) =
        (if \<exists>k. Suc k < length (moveEvaluations res) \<and>
                 f_gt F (f_abs F (f_sub F (to_number F (evaluationFloat (moveEvaluations res ! Suc k)))
                                          (to_number F (evaluationFloat (moveEvaluations res ! k)))))
                        (f_of_int F 1)
         then Major_drops_detected else No_major_drops_detected)"
    by (simp only: hasBlunders_iff)
next
  assume "analyzeCompleteGame_rev1 F R net' pgn_text gid = Inr res'"
  then have "last (rawOutput res') =
           (if hasBlunders F (moveEvaluations res') then Major_drops_detected else No_major_drops_detected)"
    using analyzeCompleteGame_rev1_result by blast
  then show "last (rawOutput res') =
        (if \<exists>k. Suc k < length (moveEvaluations res') \<and>
                 f_gt F (f_abs F (f_sub F (to_number F (evaluationFloat (moveEvaluations res' ! Suc k)))
                                          (to_number F (evaluationFloat (moveEvaluations res' ! k)))))
                        (f_of_int F 1)
         then Major_drops_detected else No_major_drops_detected)"
    by (simp only: hasBlunders_iff)
next
  show "analyze_game2 B score_cp engine board (ms @ [pm]) =
     (case analyze_game2 B score_cp engine board ms of
        Inl e \<Rightarrow> Inl e
      | Inr drops \<Rightarrow>
          (let n = 2 * length ms;
               b = foldl (board_push B) board ms;
               b1 = board_push B b pm
           in (case best_move_of (engine n b) of
                 Inl e \<Rightarrow> Inl e
               | Inr best \<Rightarrow>
                   Inr (case (score_cp (info_score (engine n b)),
                              score_cp (info_score (engine (n + 1) b1))) of
                          (Some sb, Some sa) \<Rightarrow>
                            if \<bar>sb - sa\<bar> \<ge> 200 \<and> Some pm \<noteq> best
                            then drops @ [(board_fullmove_number B b1, pm, best, sb, sa)]
                            else drops
                        | _ \<Rightarrow> drops))))"
    by (rule analyze_game2_last)
next
  show "analyze_game F B engine board (ms @ [pm]) =
     (case analyze_game F B engine board ms of
        Inl e \<Rightarrow> Inl e
      | Inr drops \<Rightarrow>
          (let n = 2 * length ms;
               b = foldl (board_push B) board ms;
               b1 = board_push B b pm;
               sb = score_pawns F (info_score (engine n b));
               sa = score_pawns F (info_score (engine (n + 1) b1))
           in (case best_move_of (engine n b) of
                 Inl e \<Rightarrow> Inl e
               | Inr best \<Rightarrow>
                   Inr (if f_ge F (f_abs F (f_sub F sb sa)) (f_of_int F 2) \<and> Some pm \<noteq> best
                        then drops @
                          [(board_fullmove_number B b1,
                            (case board_san B b pm of Some s \<Rightarrow> s | None \<Rightarrow> move_str B pm),
                            (case best of
                               None \<Rightarrow> ''N/A''
                             | Some bm \<Rightarrow>
                                 if board_is_legal B b bm
                                 then (case board_san B b bm of Some s \<Rightarrow> s | None \<Rightarrow> ''N/A'')
                                 else ''N/A''),
                            sb, sa)]
                        else drops))))"
    by (rule analyze_game_last)
qed

text \<open>
  The theorem on the runs of the remote analyzer, in either revision, whose first
  evaluations are 1.2 and 2.2, which are \<^verbatim>\<open>1.0000000000000002\<close> apart in double
  precision: a drop is reported. And on the example of the specification, the score +150
  before the move and -150 after it: either script records the move when it is not the
  engine's best move and does not when it is. With the scores +230 and +30 the first
  script records nothing, 2.3 and 0.3 being less than 2.0 apart in double precision; the
  second script records the move.
\<close>

lemma example_run_tenths_rev1:
  "map_sum id (\<lambda>res. (map evaluationFloat (moveEvaluations res), last (rawOutput res)))
     (analyzeCompleteGame_rev1 double_ops example_rules (\<lambda>i fen. net_tenths i fen 0) example_pgn
        ''game-12'') =
   Inr ([Number (decimal 12 1), Number (decimal 22 1), Number (decimal 22 1), Number (decimal 22 1),
         Number (decimal 22 1)], Major_drops_detected)"
  by code_simp

lemma example_blunder_played_other:
  "analyze_game2 example_board example_score_cp (example_engine 150 (- 150) ''Nf3'') [] [''Ng5'']
     = Inr [(1, ''Ng5'', Some ''Nf3'', 150, - 150)]"
  by code_simp

lemma example_blunder_played_best:
  "analyze_game2 example_board example_score_cp (example_engine 150 (- 150) ''Nf3'') [] [''Nf3'']
     = Inr []"
  by code_simp

lemma example_pawns_played_other:
  "analyze_game double_ops example_board (example_engine 150 (- 150) ''Nf3'') [] [''Ng5'']
     = Inr [(1, ''Ng5'', ''Nf3'', decimal 15 1, decimal (- 15) 1)]"
  by code_simp

lemma example_pawns_played_best:
  "analyze_game double_ops example_board (example_engine 150 (- 150) ''Nf3'') [] [''Nf3'']
     = Inr []"
  by code_simp

lemma example_pawns_below:
  "analyze_game double_ops example_board (example_engine 230 30 ''Nf3'') [] [''Ng5''] = Inr []
   \<and> analyze_game2 example_board example_score_cp (example_engine 230 30 ''Nf3'') [] [''Ng5'']
     = Inr [(1, ''Ng5'', Some ''Nf3'', 230, 30)]"
  by code_simp

lemma example_tenths_far: "d_gt (d_abs (d_sub (decimal 22 1) (decimal 12 1))) (d_of_int 1)"
  by code_simp

lemma far_at_first:
  assumes "map evaluationFloat evals = Number a # Number b # rest"
    and "d_gt (d_abs (d_sub b a)) (d_of_int 1)"
  shows "\<exists>k. Suc k < length evals \<and>
     f_gt double_ops (f_abs double_ops (f_sub double_ops
        (to_number double_ops (evaluationFloat (evals ! Suc k)))
        (to_number double_ops (evaluationFloat (evals ! k)))))
       (f_of_int double_ops 1)"
proof -
  from assms(1) obtain r0 r1 rs where e: "evals = r0 # r1 # rs"
    and "evaluationFloat r0 = Number a" "evaluationFloat r1 = Number b"
    by (auto simp: map_eq_Cons_conv)
  with assms(2) have "Suc 0 < length evals \<and>
     f_gt double_ops (f_abs double_ops (f_sub double_ops
        (to_number double_ops (evaluationFloat (evals ! Suc 0)))
        (to_number double_ops (evaluationFloat (evals ! 0)))))
       (f_of_int double_ops 1)"
    by (simp add: double_ops_def to_number_def)
  then show ?thesis by (rule exI)
qed

theorem blunder_rule_as_coded_witness:
  "(\<exists>res. analyzeCompleteGame double_ops example_rules net_tenths ''1. e4 e5'' ''game-8'' = Inr res
      \<and> map evaluationFloat (moveEvaluations res) = [Number (decimal 12 1), Number (decimal 22 1)]
      \<and> d_gt (d_abs (d_sub (decimal 22 1) (decimal 12 1))) (d_of_int 1)
      \<and> last (rawOutput res) = Major_drops_detected)
   \<and> (\<exists>res. analyzeCompleteGame_rev1 double_ops example_rules (\<lambda>i fen. net_tenths i fen 0) example_pgn
               ''game-12'' = Inr res
      \<and> last (rawOutput res) = Major_drops_detected)
   \<and> analyze_game2 example_board example_score_cp (example_engine 150 (- 150) ''Nf3'') [] ([] @ [''Ng5''])
     = Inr [(1, ''Ng5'', Some ''Nf3'', 150, - 150)]
   \<and> analyze_game2 example_board example_score_cp (example_engine 150 (- 150) ''Nf3'') [] ([] @ [''Nf3''])
     = Inr []
   \<and> analyze_game double_ops example_board (example_engine 150 (- 150) ''Nf3'') [] ([] @ [''Ng5''])
     = Inr [(1, ''Ng5'', ''Nf3'', decimal 15 1, decimal (- 15) 1)]
   \<and> analyze_game double_ops example_board (example_engine 150 (- 150) ''Nf3'') [] ([] @ [''Nf3''])
     = Inr []
   \<and> analyze_game double_ops example_board (example_engine 230 30 ''Nf3'') [] ([] @ [''Ng5''])
     = Inr []"
proof -
  from example_run_tenths obtain res where
    r: "analyzeCompleteGame double_ops example_rules net_tenths ''1. e4 e5'' ''game-8'' = Inr res"
    and f: "map evaluationFloat (moveEvaluations res) = [Number (decimal 12 1), Number (decimal 22 1)]"
    by (cases "analyzeCompleteGame double_ops example_rules net_tenths ''1. e4 e5'' ''game-8''") auto
  from example_run_tenths_rev1 obtain res1 where
    r1: "analyzeCompleteGame_rev1 double_ops example_rules (\<lambda>i fen. net_tenths i fen 0) example_pgn
           ''game-12'' = Inr res1"
    and f1: "map evaluationFloat (moveEvaluations res1) =
       [Number (decimal 12 1), Number (decimal 22 1), Number (decimal 22 1), Number (decimal 22 1),
        Number (decimal 22 1)]"
    by (cases "analyzeCompleteGame_rev1 double_ops example_rules (\<lambda>i fen. net_tenths i fen 0)
                 example_pgn ''game-12''") auto
  note ex = far_at_first [OF f example_tenths_far]
  note ex1 = far_at_first [OF f1 example_tenths_far]
  note rule = blunder_rule_as_coded [where F = double_ops and R = example_rules and net = net_tenths
      and pgn_text = "''1. e4 e5''" and gid = "''game-8''" and res = res
      and B = example_board and score_cp = example_score_cp
      and engine = "example_engine 150 (- 150) ''Nf3''" and board = "[]" and ms = "[]"
      and pm = "''Ng5''" and net' = "\<lambda>i fen. net_tenths i fen 0" and res' = res1]
  note rule1 = blunder_rule_as_coded [where F = double_ops and R = example_rules and net = net_tenths
      and net' = "\<lambda>i fen. net_tenths i fen 0"
      and pgn_text = example_pgn and gid = "''game-12''" and res = res and res' = res1
      and B = example_board and score_cp = example_score_cp
      and engine = "example_engine 150 (- 150) ''Nf3''" and board = "[]" and ms = "[]"
      and pm = "''Ng5''"]
  from rule [THEN conjunct1] r ex have l: "last (rawOutput res) = Major_drops_detected"
    by (simp only: if_True simp_thms)
  from rule1 [THEN conjunct2, THEN conjunct1] r1 ex1
  have l1: "last (rawOutput res1) = Major_drops_detected"
    by (simp only: if_True simp_thms)
  from r f example_tenths_far l
  have "analyzeCompleteGame double_ops example_rules net_tenths ''1. e4 e5'' ''game-8'' = Inr res
      \<and> map evaluationFloat (moveEvaluations res) = [Number (decimal 12 1), Number (decimal 22 1)]
      \<and> d_gt (d_abs (d_sub (decimal 22 1) (decimal 12 1))) (d_of_int 1)
      \<and> last (rawOutput res) = Major_drops_detected"
    by (intro conjI)
  then have rem: "\<exists>res. analyzeCompleteGame double_ops example_rules net_tenths ''1. e4 e5'' ''game-8'' = Inr res
      \<and> map evaluationFloat (moveEvaluations res) = [Number (decimal 12 1), Number (decimal 22 1)]
      \<and> d_gt (d_abs (d_sub (decimal 22 1) (decimal 12 1))) (d_of_int 1)
      \<and> last (rawOutput res) = Major_drops_detected"
    by (rule exI)
  from r1 l1
  have "analyzeCompleteGame_rev1 double_ops example_rules (\<lambda>i fen. net_tenths i fen 0) example_pgn
               ''game-12'' = Inr res1
      \<and> last (rawOutput res1) = Major_drops_detected"
    by (intro conjI)
  then have rem1: "\<exists>res. analyzeCompleteGame_rev1 double_ops example_rules (\<lambda>i fen. net_tenths i fen 0)
               example_pgn ''game-12'' = Inr res
      \<and> last (rawOutput res) = Major_drops_detected"
    by (rule exI)
  from rem rem1 example_blunder_played_other example_blunder_played_best example_pawns_played_other
    example_pawns_played_best example_pawns_below
  show ?thesis by simp
qed

text \<open>
  C1 as stated fails. In the run of the remote analyzer on the network whose evaluation
  falls from 1.5 after \<^verbatim>\<open>e4\<close> to -1.5 after \<^verbatim>\<open>e5\<close>, the move \<^verbatim>\<open>e5\<close> is the one the
  service had suggested (\<^verbatim>\<open>e7e5\<close>), and the summary reports a major drop. In the Python
  analyzer a move with the scores +100 and -100 is recorded although the difference, 200,
  does not exceed 200.
\<close>

lemma example_blunder_at_threshold:
  "analyze_game2 example_board example_score_cp (example_engine 100 (- 100) ''Nf3'') [] [''Ng5'']
     = Inr [(1, ''Ng5'', Some ''Nf3'', 100, - 100)]"
  by code_simp

theorem blunder_rule_counterexample:
  "map_sum id (\<lambda>res. (map move_me (moveEvaluations res), map evaluationFloat (moveEvaluations res),
                       map bestMove (moveEvaluations res), last (rawOutput res)))
     (analyzeCompleteGame double_ops example_rules net_drop example_pgn ''game-4'') =
   Inr ([''e4     |'', ''e5     |'', ''Nf3    |'', ''Nc6    |'', ''Bb5    |''],
        [Number (decimal 15 1), Number (decimal (- 15) 1), Number (decimal (- 15) 1),
         Number (decimal (- 15) 1), Number (decimal (- 15) 1)],
        [''bestmove e7e5 ponder g1f3'', ''bestmove g1f3 ponder b8c6'', ''bestmove g1f3 ponder b8c6'',
         ''bestmove g1f3 ponder b8c6'', ''bestmove g1f3 ponder b8c6''],
        Major_drops_detected)
   \<and> analyze_game2 example_board example_score_cp (example_engine 100 (- 100) ''Nf3'') [] [''Ng5'']
     = Inr [(1, ''Ng5'', Some ''Nf3'', 100, - 100)]
   \<and> \<not> \<bar>100 - (- 100)\<bar> > (200 :: int)"
  using example_run_drop example_blunder_at_threshold by simp

section \<open>Properties of the normalization of mate scores\<close>

lemma analyze_game2_loop_reading:
  assumes "same_reading score_cp engine engine'"
  shows "analyze_game2_loop B score_cp engine n board ms drops
       = analyze_game2_loop B score_cp engine' n board ms drops"
proof (induction ms arbitrary: n board drops)
  case Nil
  show ?case by simp
next
  case (Cons m ms)
  from assms have s: "score_cp (info_score (engine k b)) = score_cp (info_score (engine' k b))"
    and p: "best_move_of (engine k b) = best_move_of (engine' k b)" for k b
    by (simp_all add: same_reading_def)
  show ?case
    by (simp add: Let_def Cons.IH s p split: sum.splits option.splits)
qed

lemma analyze_game_loop_reading:
  assumes "same_reading (score_pawns F) engine engine'"
  shows "analyze_game_loop F B engine n board ms drops
       = analyze_game_loop F B engine' n board ms drops"
proof (induction ms arbitrary: n board drops)
  case Nil
  show ?case by simp
next
  case (Cons m ms)
  from assms have s: "score_pawns F (info_score (engine k b)) = score_pawns F (info_score (engine' k b))"
    and p: "best_move_of (engine k b) = best_move_of (engine' k b)" for k b
    by (simp_all add: same_reading_def)
  show ?case
    by (simp add: Let_def Cons.IH s p split: sum.splits)
qed

text \<open>
  C3, as the code has it. The Python analyzers read a score in one way only, and the
  result of an analysis depends on the engine's scores through that reading alone: the
  second script through the library's \<^verbatim>\<open>score(mate_score=10000)\<close>, the first through the
  conversion to pawns, in which a mate is the sentinel \<open>100.0\<close> or \<open>-100.0\<close> by the sign
  of its distance and a centipawn score is its floating-point quotient by 100. No
  comparison reads a mate distance otherwise. The remote analyzer normalizes nothing: its
  verdict depends on the \<^verbatim>\<open>evaluationFloat\<close> fields alone, so a reported mate never
  enters the comparison.
\<close>

theorem mate_normalization_as_coded:
  "(same_reading score_cp engine engine' \<longrightarrow>
      analyze_game2 B score_cp engine board ms = analyze_game2 B score_cp engine' board ms)
   \<and> (same_reading (score_pawns F) engine engine' \<longrightarrow>
      analyze_game F B engine board ms = analyze_game F B engine' board ms)
   \<and> score_pawns F (Mate n) = f_of_int F (if n > 0 then 100 else - 100)
   \<and> score_pawns F (Cp c) = f_int_div F c 100
   \<and> (map evaluationFloat evals = map evaluationFloat evals' \<longrightarrow>
        hasBlunders F evals = hasBlunders F evals')"
proof (intro conjI impI)
  assume "same_reading score_cp engine engine'"
  then show "analyze_game2 B score_cp engine board ms = analyze_game2 B score_cp engine' board ms"
    unfolding analyze_game2_def by (rule analyze_game2_loop_reading)
next
  assume "same_reading (score_pawns F) engine engine'"
  then show "analyze_game F B engine board ms = analyze_game F B engine' board ms"
    unfolding analyze_game_def by (rule analyze_game_loop_reading)
next
  show "score_pawns F (Mate n) = f_of_int F (if n > 0 then 100 else - 100)"
    by (simp add: score_pawns_def)
next
  show "score_pawns F (Cp c) = f_int_div F c 100"
    by (simp add: score_pawns_def)
next
  assume "map evaluationFloat evals = map evaluationFloat evals'"
  then show "hasBlunders F evals = hasBlunders F evals'"
    by (rule hasBlunders_reads_evaluationFloat)
qed

text \<open>
  The theorem on a move played when the engine saw a mate and preferred another move,
  the score being half a pawn afterwards. To the first script a mate in 3 and a mate in 7
  read the same, 100.0; to the second a mate in 3 and 9997 centipawns read the same. And
  on two lists of records that differ in the reported mate only.
\<close>

lemma example_mate_move:
  "analyze_game double_ops example_board example_engine_mate [] [''Ng5'']
     = Inr [(1, ''Ng5'', ''Qh5'', d_of_int 100, decimal 5 1)]
   \<and> analyze_game2 example_board example_score_cp example_engine_mate [] [''Ng5'']
     = Inr [(1, ''Ng5'', Some ''Qh5'', 9997, 50)]"
  by code_simp

lemma example_same_reading_pawns:
  "same_reading (score_pawns double_ops) example_engine_mate example_engine_mate_far"
  by (simp add: same_reading_def example_engine_mate_def example_engine_mate_far_def
        score_pawns_def best_move_of_def)

lemma example_same_reading_cp:
  "same_reading example_score_cp example_engine_mate (example_engine 9997 50 ''Qh5'')"
  by (simp add: same_reading_def example_engine_mate_def example_engine_def
        example_score_cp_def best_move_of_def)

theorem mate_normalization_as_coded_witness:
  "same_reading example_score_cp example_engine_mate (example_engine 9997 50 ''Qh5'')
   \<and> analyze_game2 example_board example_score_cp (example_engine 9997 50 ''Qh5'') [] [''Ng5'']
     = Inr [(1, ''Ng5'', Some ''Qh5'', 9997, 50)]
   \<and> same_reading (score_pawns double_ops) example_engine_mate example_engine_mate_far
   \<and> analyze_game double_ops example_board example_engine_mate_far [] [''Ng5'']
     = Inr [(1, ''Ng5'', ''Qh5'', d_of_int 100, decimal 5 1)]
   \<and> score_pawns double_ops (Mate 7) = d_of_int 100
   \<and> map evaluationFloat [example_record (Number (decimal 3 1)) None ''bestmove e7e5 ponder g1f3'',
                           example_record Null (Some 3) ''bestmove g1f3 ponder b8c6'']
       = map evaluationFloat [example_record (Number (decimal 3 1)) None ''bestmove e7e5 ponder g1f3'',
                              example_record Null None ''bestmove g1f3 ponder b8c6'']
   \<and> hasBlunders double_ops
        [example_record (Number (decimal 3 1)) None ''bestmove e7e5 ponder g1f3'',
         example_record Null (Some 3) ''bestmove g1f3 ponder b8c6'']
       = hasBlunders double_ops
           [example_record (Number (decimal 3 1)) None ''bestmove e7e5 ponder g1f3'',
            example_record Null None ''bestmove g1f3 ponder b8c6'']"
proof -
  note rule = mate_normalization_as_coded [where F = double_ops and B = example_board
      and score_cp = example_score_cp and board = "[]" and ms = "[''Ng5'']" and n = 7
      and evals = "[example_record (Number (decimal 3 1)) None ''bestmove e7e5 ponder g1f3'',
                    example_record Null (Some 3) ''bestmove g1f3 ponder b8c6'']"
      and evals' = "[example_record (Number (decimal 3 1)) None ''bestmove e7e5 ponder g1f3'',
                     example_record Null None ''bestmove g1f3 ponder b8c6'']"]
  have m: "map evaluationFloat [example_record (Number (decimal 3 1)) None ''bestmove e7e5 ponder g1f3'',
                           example_record Null (Some 3) ''bestmove g1f3 ponder b8c6'']
       = map evaluationFloat [example_record (Number (decimal 3 1)) None ''bestmove e7e5 ponder g1f3'',
                              example_record Null None ''bestmove g1f3 ponder b8c6'']"
    by (simp add: example_record_def)
  from rule [where engine = example_engine_mate and engine' = "example_engine 9997 50 ''Qh5''"]
    example_same_reading_cp example_mate_move
  have a: "analyze_game2 example_board example_score_cp (example_engine 9997 50 ''Qh5'') [] [''Ng5'']
     = Inr [(1, ''Ng5'', Some ''Qh5'', 9997, 50)]"
    by simp
  from rule [where engine = example_engine_mate and engine' = example_engine_mate_far]
    example_same_reading_pawns example_mate_move
  have b: "analyze_game double_ops example_board example_engine_mate_far [] [''Ng5'']
     = Inr [(1, ''Ng5'', ''Qh5'', d_of_int 100, decimal 5 1)]"
    by simp
  from rule [where engine = example_engine_mate and engine' = example_engine_mate_far]
  have c: "score_pawns double_ops (Mate 7) = d_of_int 100"
    by (simp add: double_ops_def)
  from rule [where engine = example_engine_mate and engine' = example_engine_mate_far] m
  have d: "hasBlunders double_ops
        [example_record (Number (decimal 3 1)) None ''bestmove e7e5 ponder g1f3'',
         example_record Null (Some 3) ''bestmove g1f3 ponder b8c6'']
       = hasBlunders double_ops
           [example_record (Number (decimal 3 1)) None ''bestmove e7e5 ponder g1f3'',
            example_record Null None ''bestmove g1f3 ponder b8c6'']"
    by blast
  from example_same_reading_cp a example_same_reading_pawns b c m d
  show ?thesis by (intro conjI)
qed

text \<open>
  C3 as stated fails. In the run of the remote analyzer on the network that reports
  0.3 and then a mate in 3, the normalized scores of the first two records are 30 and
  10000 centipawns, 9970 apart, far beyond the threshold of 100; the analyzer compares
  0.3 with the 0 that the evaluation \<^verbatim>\<open>null\<close> counts as and reports no drop.
\<close>

theorem mate_normalization_counterexample:
  "map_sum id (\<lambda>res. (map evaluationFloat (moveEvaluations res), map mate_me (moveEvaluations res),
                       map (\<lambda>r. spec_normalize (spec_record_score r)) (moveEvaluations res),
                       last (rawOutput res)))
     (analyzeCompleteGame double_ops example_rules net_mate example_pgn ''game-5'') =
   Inr ([Number (decimal 3 1), Null, Null, Null, Null], [None, Some 3, Some 3, Some 3, Some 3],
        [30, 10000, 10000, 10000, 10000], No_major_drops_detected)
   \<and> \<bar>10000 - 30\<bar> > (100 :: int)"
  using example_run_mate by simp

section \<open>Properties of the game analyzer of local mode\<close>





lemma example_local_report_low:
  "map isBlunder (move_records (AnalyzeGame \<lparr>blunder_threshold = 5, max_plies = None\<rparr> example_rules
      (local_source example_rules) [''e4'', ''e5'', ''Nf3'', ''Nc6'', ''Bb5'']))
     = [True, False, False, False, False]
   \<and> report_hasBlunders (AnalyzeGame \<lparr>blunder_threshold = 5, max_plies = None\<rparr> example_rules
      (local_source example_rules) [''e4'', ''e5'', ''Nf3'', ''Nc6'', ''Bb5''])"
  by code_simp



section \<open>Properties of the move extraction fallback\<close>

lemma split_no_separator: "sep \<notin> set s \<Longrightarrow> split sep s = [s]"
  by (induction s) auto

lemma split_at_separator: "sep \<notin> set s \<Longrightarrow> split sep (s @ sep # t) = s # split sep t"
  by (induction s) auto

lemma split_join:
  "ls \<noteq> [] \<Longrightarrow> list_all (\<lambda>l. sep \<notin> set l) ls \<Longrightarrow> split sep (join [sep] ls) = ls"
proof (induction "[sep]" ls rule: join.induct)
  case 1
  then show ?case by simp
next
  case (2 s)
  then show ?case by (simp add: split_no_separator)
next
  case (3 s t ss)
  then show ?case by (simp add: split_at_separator)
qed

lemma lastIndexOf_from_last:
  "lastIndexOf_from c (xs @ [c]) i found = i + int (length xs)"
  by (induction xs arbitrary: i found) auto

lemma lastIndexOf_last: "s \<noteq> [] \<Longrightarrow> last s = c \<Longrightarrow> lastIndexOf s c = int (length s) - 1"
proof -
  assume "s \<noteq> []" "last s = c"
  then have "s = butlast s @ [c]" by (metis append_butlast_last_id)
  then have "lastIndexOf s c = lastIndexOf_from c (butlast s @ [c]) 0 (- 1)"
    by (simp add: lastIndexOf_def)
  also have "\<dots> = int (length (butlast s))" by (simp add: lastIndexOf_from_last)
  finally show ?thesis using \<open>s \<noteq> []\<close>
    by (cases s) (simp_all add: of_nat_diff)
qed

lemma lastIndexOf_from_absent: "c \<notin> set s \<Longrightarrow> lastIndexOf_from c s i found = found"
  by (induction s arbitrary: i) auto

lemma lastIndexOf_absent: "c \<notin> set s \<Longrightarrow> lastIndexOf s c = - 1"
  by (simp add: lastIndexOf_def lastIndexOf_from_absent)

lemma moveLine_header: "header_or_blank l \<Longrightarrow> moveLine l = []"
proof -
  assume h: "header_or_blank l"
  show ?thesis
  proof (cases "trim l = []")
    case True
    then show ?thesis by (simp add: moveLine_def)
  next
    case False
    with h have sw: "starts_with (trim l) ''[''"
      and cl: "CHR '']'' \<notin> set (trim l) \<or> last (trim l) = CHR '']''"
      by (auto simp: header_or_blank_def)
    from cl show ?thesis
    proof
      assume "CHR '']'' \<notin> set (trim l)"
      from lastIndexOf_absent [OF this] sw show ?thesis
        by (simp add: moveLine_def Let_def)
    next
      assume "last (trim l) = CHR '']''"
      from lastIndexOf_last [OF False this] sw show ?thesis
        by (simp add: moveLine_def Let_def)
    qed
  qed
qed

lemma moveLines_headers: "list_all header_or_blank hs \<Longrightarrow> concat (map moveLine hs) = []"
  by (induction hs) (auto simp: moveLine_header)

lemma example_move_line: "moveLine ''1. e4 e5 2. Nf3 Nc6 1-0'' = [''1. e4 e5 2. Nf3 Nc6'']"
  by code_simp

lemma example_matches:
  "filter (\<lambda>m. \<not> test moveNumberPattern m \<and> \<not> str_includes m ''1-0''
                      \<and> \<not> str_includes m ''0-1'' \<and> \<not> str_includes m ''1/2-1/2''
                      \<and> \<not> str_includes m ''*'')
     (match_all movePattern [] ''1. e4 e5 2. Nf3 Nc6'') = [''e4'', ''e5'', ''Nf3'', ''Nc6'']"
  by code_simp

lemma extractedMoves_headers:
  assumes "list_all header_or_blank hs"
  shows "extractedMoves (join [CHR 0x0A] (hs @ [''1. e4 e5 2. Nf3 Nc6 1-0'']))
           = [''e4'', ''e5'', ''Nf3'', ''Nc6'']"
proof -
  have nl: "list_all (\<lambda>l. CHR 0x0A \<notin> set l) (hs @ [''1. e4 e5 2. Nf3 Nc6 1-0''])"
    using assms by (simp add: list_all_iff header_or_blank_def)
  have sp: "split CHR 0x0A (join [CHR 0x0A] (hs @ [''1. e4 e5 2. Nf3 Nc6 1-0'']))
              = hs @ [''1. e4 e5 2. Nf3 Nc6 1-0'']"
    by (rule split_join [OF _ nl]) simp
  have ml: "concat (map moveLine (hs @ [''1. e4 e5 2. Nf3 Nc6 1-0''])) = [''1. e4 e5 2. Nf3 Nc6'']"
    using moveLines_headers [OF assms] example_move_line by simp
  show ?thesis
    unfolding extractedMoves_def Let_def sp ml
    using example_matches by simp
qed

lemma validate_moves_prefix:
  "\<exists>rest chess'. cands = validate_moves R chess cands @ rest
      \<and> play_all R chess (validate_moves R chess cands) = Some chess'
      \<and> (rest \<noteq> [] \<longrightarrow> Chess_move_san R chess' (hd rest) = None)"
proof (induction cands arbitrary: chess)
  case Nil
  show ?case by simp
next
  case (Cons m ms)
  show ?case
  proof (cases "Chess_move_san R chess m")
    case None
    then show ?thesis by simp
  next
    case (Some chess1)
    from Cons.IH [of chess1] obtain rest chess' where
      "ms = validate_moves R chess1 ms @ rest"
      "play_all R chess1 (validate_moves R chess1 ms) = Some chess'"
      "rest \<noteq> [] \<longrightarrow> Chess_move_san R chess' (hd rest) = None"
      by blast
    with Some show ?thesis
      by (intro exI [of _ rest] exI [of _ chess']) simp
  qed
qed

lemma fallback_returns:
  assumes "chess_loadPgn R pgn_text = None"
  shows "\<exists>res. analyzeCompleteGame F R net pgn_text gid = Inr res
           \<and> totalMoves res = length (extractMovesManually R pgn_text)"
proof -
  have gm: "gameMoves R pgn_text = extractMovesManually R pgn_text"
    using assms by (simp add: gameMoves_def)
  have "validate_moves R (Chess_reset R) (extractMovesManually R pgn_text) = extractMovesManually R pgn_text"
    by (simp add: extractMovesManually_def validate_moves_idem)
  then have "validate_moves R (Chess_reset R)
       (take (min (length (gameMoves R pgn_text)) 30) (gameMoves R pgn_text))
     = take (min (length (gameMoves R pgn_text)) 30) (gameMoves R pgn_text)"
    unfolding gm by (rule validate_moves_take)
  from analyze_loop_returns [OF this, of F net 0 "[]" "[Game_line (gameName pgn_text)]"]
  obtain evals lines where "analyze_loop F R net 0
       (take (min (length (gameMoves R pgn_text)) 30) (gameMoves R pgn_text)) (Chess_reset R) []
       [Game_line (gameName pgn_text)] = Inr (evals, lines)"
    by fastforce
  then show ?thesis
    by (simp add: analyzeCompleteGame_def Let_def gm)
qed


text \<open>
  C6. For a raw text made of header lines and blank lines followed by the line
  \<^verbatim>\<open>1. e4 e5 2. Nf3 Nc6 1-0\<close>, the candidates of the fallback are \<^verbatim>\<open>e4\<close>, \<^verbatim>\<open>e5\<close>,
  \<^verbatim>\<open>Nf3\<close>, \<^verbatim>\<open>Nc6\<close>, without move numbers and result; when chess.js accepts these four
  moves in this order from the initial position, they are the moves recovered. For every
  raw text, the recovered moves are a prefix of the candidates, chess.js accepts them
  one after the other from the initial position, and when a candidate is left over, the
  first one left over is rejected in the position reached. When chess.js cannot parse
  the text, the analyzer returns a result, whose \<^verbatim>\<open>totalMoves\<close> is the number of the
  recovered moves, zero included.
\<close>

theorem fallback_extraction:
  "(list_all header_or_blank hs \<longrightarrow>
      extractedMoves (join [CHR 0x0A] (hs @ [''1. e4 e5 2. Nf3 Nc6 1-0'']))
        = [''e4'', ''e5'', ''Nf3'', ''Nc6''])
   \<and> (list_all header_or_blank hs
        \<and> play_all R (Chess_reset R) [''e4'', ''e5'', ''Nf3'', ''Nc6''] \<noteq> None \<longrightarrow>
      extractMovesManually R (join [CHR 0x0A] (hs @ [''1. e4 e5 2. Nf3 Nc6 1-0'']))
        = [''e4'', ''e5'', ''Nf3'', ''Nc6''])
   \<and> (\<exists>rest chess'. extractedMoves pgn_text = extractMovesManually R pgn_text @ rest
        \<and> play_all R (Chess_reset R) (extractMovesManually R pgn_text) = Some chess'
        \<and> (rest \<noteq> [] \<longrightarrow> Chess_move_san R chess' (hd rest) = None))
   \<and> (chess_loadPgn R pgn_text = None \<longrightarrow>
        (\<exists>res. analyzeCompleteGame F R net pgn_text gid = Inr res
           \<and> totalMoves res = length (extractMovesManually R pgn_text)))"
proof (intro conjI impI)
  assume "list_all header_or_blank hs"
  then show "extractedMoves (join [CHR 0x0A] (hs @ [''1. e4 e5 2. Nf3 Nc6 1-0'']))
        = [''e4'', ''e5'', ''Nf3'', ''Nc6'']"
    by (rule extractedMoves_headers)
next
  assume a: "list_all header_or_blank hs
        \<and> play_all R (Chess_reset R) [''e4'', ''e5'', ''Nf3'', ''Nc6''] \<noteq> None"
  then have v: "validate_moves R (Chess_reset R) [''e4'', ''e5'', ''Nf3'', ''Nc6'']
       = [''e4'', ''e5'', ''Nf3'', ''Nc6'']"
    using validate_moves_play_all [of R "Chess_reset R" "[''e4'', ''e5'', ''Nf3'', ''Nc6'']"]
    by blast
  from a have "extractedMoves (join [CHR 0x0A] (hs @ [''1. e4 e5 2. Nf3 Nc6 1-0'']))
        = [''e4'', ''e5'', ''Nf3'', ''Nc6'']"
    by (intro extractedMoves_headers) blast
  with v show "extractMovesManually R (join [CHR 0x0A] (hs @ [''1. e4 e5 2. Nf3 Nc6 1-0'']))
        = [''e4'', ''e5'', ''Nf3'', ''Nc6'']"
    by (simp only: extractMovesManually_def)
next
  show "\<exists>rest chess'. extractedMoves pgn_text = extractMovesManually R pgn_text @ rest
        \<and> play_all R (Chess_reset R) (extractMovesManually R pgn_text) = Some chess'
        \<and> (rest \<noteq> [] \<longrightarrow> Chess_move_san R chess' (hd rest) = None)"
    unfolding extractMovesManually_def by (rule validate_moves_prefix)
next
  assume "chess_loadPgn R pgn_text = None"
  then show "\<exists>res. analyzeCompleteGame F R net pgn_text gid = Inr res
           \<and> totalMoves res = length (extractMovesManually R pgn_text)"
    by (rule fallback_returns)
qed

text \<open>
  The theorem on the example rules: the text with the example's header lines in front
  of the moves, which the example's parser rejects; and a text whose sixth move the
  example rules do not know, where the first five moves are kept. A header on the line
  of the moves is cut off as well.
\<close>

lemma example_headers_ok: "list_all header_or_blank example_headers"
  by code_simp

lemma example_four_accepted:
  "play_all example_rules (Chess_reset example_rules) [''e4'', ''e5'', ''Nf3'', ''Nc6''] \<noteq> None"
  by code_simp

lemma example_unparsed:
  "chess_loadPgn example_rules (join [CHR 0x0A] (example_headers @ [''1. e4 e5 2. Nf3 Nc6 1-0''])) = None"
  by code_simp

lemma example_same_line:
  "extractMovesManually example_rules
     (''[Event '' @ [CHR 0x22] @ ''Casual e4 game'' @ [CHR 0x22] @ ''] 1. e4 e5 2. Nf3 Nc6 1-0'')
     = [''e4'', ''e5'', ''Nf3'', ''Nc6'']"
  by code_simp

lemma example_truncated:
  "extractedMoves ''1. e4 e5 2. Nf3 Nc6 3. Bb5 a6 4. Ba4''
     = [''e4'', ''e5'', ''Nf3'', ''Nc6'', ''Bb5'', ''a6'', ''Ba4'']
   \<and> extractMovesManually example_rules ''1. e4 e5 2. Nf3 Nc6 3. Bb5 a6 4. Ba4''
     = [''e4'', ''e5'', ''Nf3'', ''Nc6'', ''Bb5'']"
  by code_simp

theorem fallback_extraction_witness:
  "list_all header_or_blank example_headers
   \<and> play_all example_rules (Chess_reset example_rules) [''e4'', ''e5'', ''Nf3'', ''Nc6''] \<noteq> None
   \<and> extractMovesManually example_rules
        (join [CHR 0x0A] (example_headers @ [''1. e4 e5 2. Nf3 Nc6 1-0'']))
        = [''e4'', ''e5'', ''Nf3'', ''Nc6'']
   \<and> chess_loadPgn example_rules
        (join [CHR 0x0A] (example_headers @ [''1. e4 e5 2. Nf3 Nc6 1-0''])) = None
   \<and> (\<exists>res. analyzeCompleteGame double_ops example_rules net_up
          (join [CHR 0x0A] (example_headers @ [''1. e4 e5 2. Nf3 Nc6 1-0''])) ''game-6'' = Inr res
        \<and> totalMoves res = 4)
   \<and> extractMovesManually example_rules ''1. e4 e5 2. Nf3 Nc6 3. Bb5 a6 4. Ba4''
        = [''e4'', ''e5'', ''Nf3'', ''Nc6'', ''Bb5'']"
  using fallback_extraction [where hs = example_headers and R = example_rules and net = net_up
      and F = double_ops
      and pgn_text = "join [CHR 0x0A] (example_headers @ [''1. e4 e5 2. Nf3 Nc6 1-0''])"
      and gid = "''game-6''"]
    example_headers_ok example_four_accepted example_unparsed example_truncated
  by auto

end
